theory Spec2Isabelle
  imports Complex_Main "HOL-Library.Multiset" "HOL-Library.Sublist"
    "HOL-Library.Char_ord" "HOL-Library.List_Lexorder"
begin

text \<open>
  A shallow embedding of the core of the logo generator command-line tool: the retry
  strategy, the cache manager, the two prompt engines, the generator, and the CSV parsing
  and batch processing of the batch command. Each TypeScript function is a HOL function of
  the same name; what the code takes from its environment (the clock, \<open>Math.random()\<close>,
  the file system, the image API, the digest library) is an explicit argument. The
  definitions come first, the properties proved about them second.
\<close>

section \<open>Strings as the TypeScript code uses them\<close>

text \<open>
  A TypeScript string is modelled as a \<^typ>\<open>string\<close>, the list of the bytes of its UTF-8
  encoding: an ASCII character is one byte, any other character two to four bytes, none of
  them an ASCII byte. An optional value (\<open>undefined\<close> allowed) is an \<^typ>\<open>'a option\<close>.
  JavaScript's \<open>a || b\<close> on an optional string takes \<open>b\<close> when \<open>a\<close> is \<open>undefined\<close> or
  the empty string.
\<close>

fun or_else :: "string option \<Rightarrow> string \<Rightarrow> string" where
  "or_else None d = d"
| "or_else (Some s) d = (if s = [] then d else s)"

text \<open>\<open>String.prototype.includes\<close>: does the pattern occur as a contiguous substring?\<close>

fun str_includes :: "string \<Rightarrow> string \<Rightarrow> bool" where
  "str_includes [] pat = (pat = [])"
| "str_includes (c # cs) pat = (prefix pat (c # cs) \<or> str_includes cs pat)"

text \<open>\<open>Array.prototype.join\<close> on an array of strings.\<close>

fun join :: "string \<Rightarrow> string list \<Rightarrow> string" where
  "join sep [] = []"
| "join sep [x] = x"
| "join sep (x # y # ys) = x @ sep @ join sep (y # ys)"

text \<open>
  \<open>toLowerCase\<close> on the ASCII letters. (JavaScript lower-cases the letters outside ASCII
  as well; the model leaves their bytes as they are.)
\<close>

definition toLowerChar :: "char \<Rightarrow> char" where
  "toLowerChar c =
     (case map_of (zip ''ABCDEFGHIJKLMNOPQRSTUVWXYZ'' ''abcdefghijklmnopqrstuvwxyz'') c of
        Some l \<Rightarrow> l
      | None \<Rightarrow> c)"

definition toLowerCase :: "string \<Rightarrow> string" where
  "toLowerCase s = map toLowerChar s"

text \<open>
  \<open>String.prototype.trim\<close> strips white space and line terminators from both ends: tab,
  line feed, vertical tab, form feed, carriage return, space, U+00A0, U+1680, U+2000 to
  U+200A, U+2028, U+2029, U+202F, U+205F, U+3000 and U+FEFF, here in their UTF-8 encoding.
\<close>

definition white_space :: "string list" where
  "white_space =
     [[CHR 0x09], [CHR 0x0A], [CHR 0x0B], [CHR 0x0C], [CHR 0x0D], [CHR 0x20],
      [CHR 0xC2, CHR 0xA0], [CHR 0xE1, CHR 0x9A, CHR 0x80], [CHR 0xE2, CHR 0x80, CHR 0x80],
      [CHR 0xE2, CHR 0x80, CHR 0x81], [CHR 0xE2, CHR 0x80, CHR 0x82],
      [CHR 0xE2, CHR 0x80, CHR 0x83], [CHR 0xE2, CHR 0x80, CHR 0x84],
      [CHR 0xE2, CHR 0x80, CHR 0x85], [CHR 0xE2, CHR 0x80, CHR 0x86],
      [CHR 0xE2, CHR 0x80, CHR 0x87], [CHR 0xE2, CHR 0x80, CHR 0x88],
      [CHR 0xE2, CHR 0x80, CHR 0x89], [CHR 0xE2, CHR 0x80, CHR 0x8A],
      [CHR 0xE2, CHR 0x80, CHR 0xA8], [CHR 0xE2, CHR 0x80, CHR 0xA9],
      [CHR 0xE2, CHR 0x80, CHR 0xAF], [CHR 0xE2, CHR 0x81, CHR 0x9F],
      [CHR 0xE3, CHR 0x80, CHR 0x80], [CHR 0xEF, CHR 0xBB, CHR 0xBF]]"

function strip_leading :: "string list \<Rightarrow> string \<Rightarrow> string" where
  "strip_leading seqs s =
     (case find (\<lambda>w. w \<noteq> [] \<and> prefix w s) seqs of
        None \<Rightarrow> s
      | Some w \<Rightarrow> strip_leading seqs (drop (length w) s))"
  by pat_completeness auto
termination
  by (relation "measure (\<lambda>(seqs, s). length s)") (auto simp: find_Some_iff prefix_def)

declare strip_leading.simps [simp del]

definition trim :: "string \<Rightarrow> string" where
  "trim s = rev (strip_leading (map rev white_space) (rev (strip_leading white_space s)))"

section \<open>Retry strategy (utils/retry.ts)\<close>

text \<open>
  A thrown value: whether it is an instance of \<open>RateLimitError\<close>, and its \<open>message\<close>
  property when it has one.
\<close>

record js_error =
  isRateLimitInstance :: bool
  message :: "string option"

definition errorMessage :: "js_error \<Rightarrow> string" where
  "errorMessage e = toLowerCase (or_else (message e) [])"

definition isRateLimitError :: "js_error \<Rightarrow> bool" where
  "isRateLimitError e =
     (if isRateLimitInstance e then True
      else str_includes (errorMessage e) ''rate limit'' \<or>
           str_includes (errorMessage e) ''too many requests'' \<or>
           str_includes (errorMessage e) ''quota exceeded'')"

definition isRetryableError :: "js_error \<Rightarrow> bool" where
  "isRetryableError e =
     (str_includes (errorMessage e) ''network'' \<or>
      str_includes (errorMessage e) ''timeout'' \<or>
      str_includes (errorMessage e) ''connection'' \<or>
      str_includes (errorMessage e) ''econnreset'' \<or>
      str_includes (errorMessage e) ''socket hang up'')"

text \<open>
  \<open>calculateBackoffDelay\<close>: the second argument is the value that this call's own
  \<open>Math.random()\<close> returned, a number in \<open>[0, 1)\<close>.
\<close>

definition calculateBackoffDelay :: "nat \<Rightarrow> real \<Rightarrow> real" where
  "calculateBackoffDelay attempt rnd =
     (let baseDelay = 1000;
          exponentialDelay = baseDelay * 2 powr (real attempt - 1);
          maxDelay = 30000;
          jitter = rnd * 1000
      in min (exponentialDelay + jitter) maxDelay)"

text \<open>
  The state that \<open>execute\<close> threads through its loop: how often the operation has been
  invoked, how many \<open>Math.random()\<close> draws have been consumed, and the delays slept so
  far (oldest first).
\<close>

record retry_trace =
  invocations :: nat
  draws :: nat
  sleeps :: "real list"

definition trace0 :: retry_trace where
  "trace0 = \<lparr>invocations = 0, draws = 0, sleeps = []\<rparr>"

definition backoff :: "(nat \<Rightarrow> real) \<Rightarrow> nat \<Rightarrow> retry_trace \<Rightarrow> retry_trace" where
  "backoff random attempt tr =
     tr\<lparr>draws := Suc (draws tr),
        sleeps := sleeps tr @ [calculateBackoffDelay attempt (random (draws tr))]\<rparr>"

text \<open>
  The loop \<open>for (attempt = 1; attempt <= maxRetries; attempt++)\<close>. The operation is a
  function from the number of earlier invocations to the outcome of this one; \<open>random\<close>
  is the stream of \<open>Math.random()\<close> results. The thrown value is \<open>lastError\<close>, still
  \<open>undefined\<close> (\<open>None\<close>) when the loop body never ran.
\<close>

function execute_loop ::
  "(nat \<Rightarrow> js_error + 'a) \<Rightarrow> (nat \<Rightarrow> real) \<Rightarrow> nat \<Rightarrow> nat \<Rightarrow> js_error option \<Rightarrow>
   retry_trace \<Rightarrow> (js_error option + 'a) \<times> retry_trace" where
  "execute_loop operation random maxRetries attempt lastError tr =
     (if attempt \<le> maxRetries then
        (let tr1 = tr\<lparr>invocations := Suc (invocations tr)\<rparr> in
         case operation (invocations tr) of
           Inr v \<Rightarrow> (Inr v, tr1)
         | Inl error \<Rightarrow>
             if isRateLimitError error then
               execute_loop operation random maxRetries (Suc attempt) (Some error)
                 (backoff random attempt tr1)
             else if isRetryableError error \<and> attempt < maxRetries then
               execute_loop operation random maxRetries (Suc attempt) (Some error)
                 (backoff random attempt tr1)
             else (Inl (Some error), tr1))
      else (Inl lastError, tr))"
  by pat_completeness auto
termination
  by (relation "measure (\<lambda>(operation, random, maxRetries, attempt, lastError, tr).
        Suc maxRetries - attempt)") auto

declare execute_loop.simps [simp del]

definition execute ::
  "(nat \<Rightarrow> js_error + 'a) \<Rightarrow> (nat \<Rightarrow> real) \<Rightarrow> nat \<Rightarrow> (js_error option + 'a) \<times> retry_trace" where
  "execute operation random maxRetries = execute_loop operation random maxRetries 1 None trace0"

text \<open>
  The loop invariant of \<open>execute\<close>: one \<open>Math.random()\<close> draw per sleep, and the sleep
  after attempt \<open>a\<close> is the backoff delay of \<open>a\<close> computed from draw number \<open>a - 1\<close>.
\<close>

definition trace_ok :: "(nat \<Rightarrow> real) \<Rightarrow> retry_trace \<Rightarrow> bool" where
  "trace_ok random tr =
     (draws tr = length (sleeps tr) \<and>
      sleeps tr = map (\<lambda>a. calculateBackoffDelay a (random (a - 1))) [1..<Suc (length (sleeps tr))])"

section \<open>Core types (core/types.ts)\<close>

text \<open>
  Numbers of the source (\<open>number\<close>) are modelled as reals: times are milliseconds since
  the epoch, costs are dollars. The enumerations \<open>LogoStyle\<close>, \<open>Industry\<close>, \<open>ImageSize\<close>
  and \<open>ImageQuality\<close> are string unions that the code fills from untyped input (CSV
  cells, command-line options), so they are strings here as well.
\<close>

record LogoRequest =
  req_company :: string
  req_prompt :: string
  req_style :: "string option"
  req_industry :: "string option"
  req_colors :: "string list option"
  req_size :: "string option"
  req_quality :: "string option"

record LogoMetadata =
  meta_id :: string
  meta_timestamp :: real
  meta_company :: string
  meta_originalPrompt :: string
  meta_finalPrompt :: string
  meta_style :: string
  meta_industry :: "string option"
  meta_size :: string
  meta_quality :: string
  meta_cost :: real

record LogoResult =
  res_url :: string
  res_revisedPrompt :: "string option"
  res_metadata :: LogoMetadata
  res_localPath :: "string option"

text \<open>
  \<open>CachedLogo\<close> extends \<open>LogoResult\<close> by \<open>expiresAt\<close> and \<open>hit\<close>; the spread
  \<open>{...result, expiresAt, hit}\<close> is the record below with the result as its payload.
\<close>

record CachedLogo =
  payload :: LogoResult
  expiresAt :: real
  hit :: bool

section \<open>Cache manager (infrastructure/cache.ts)\<close>

text \<open>
  One \<open>.json\<close> file of the cache directory: the key it is named after, what
  \<open>JSON.parse\<close> of its text gives (\<open>None\<close> when reading or parsing throws), and the
  size and modification time that \<open>Deno.stat\<close> reports (\<open>mtime\<close> may be \<open>null\<close>).
  In the manager below \<open>cacheDir\<close> is what is found at the path of that name: \<open>None\<close>
  when the directory does not exist, otherwise the list of its files in the order
  \<open>Deno.readDir\<close> yields them.
\<close>

record cache_file =
  fname :: string
  parsed :: "CachedLogo option"
  fsize :: nat
  mtime :: "real option"

record CacheManager =
  memoryCache :: "string \<rightharpoonup> CachedLogo"
  cacheDir :: "cache_file list option"
  ttl :: real
  maxSize :: real

definition new_CacheManager :: "cache_file list option \<Rightarrow> real \<Rightarrow> real \<Rightarrow> CacheManager" where
  "new_CacheManager dir ttlSeconds maxSizeMB =
     \<lparr>memoryCache = Map.empty, cacheDir = dir, ttl = ttlSeconds * 1000,
      maxSize = maxSizeMB * 1024 * 1024\<rparr>"

definition files_of :: "cache_file list option \<Rightarrow> cache_file list" where
  "files_of dir = (case dir of None \<Rightarrow> [] | Some files \<Rightarrow> files)"

text \<open>\<open>isExpired\<close>; the first argument is the value of \<open>Date.now()\<close>.\<close>

definition isExpired :: "real \<Rightarrow> CachedLogo \<Rightarrow> bool" where
  "isExpired now cached = (now > expiresAt cached)"

definition getFromFile :: "cache_file list option \<Rightarrow> string \<Rightarrow> CachedLogo option" where
  "getFromFile dir promptHash =
     (case find (\<lambda>f. fname f = promptHash) (files_of dir) of
        None \<Rightarrow> None
      | Some f \<Rightarrow> parsed f)"

text \<open>
  What the file system did in \<open>saveToFile\<close>. \<open>ensureDir\<close> threw: nothing changes.
  \<open>Deno.writeTextFile\<close> threw, either with the directory as \<open>ensureDir\<close> left it, or
  after truncating or partly writing the file, whose text then does not parse. Or the
  text was stored. A written file has the size and modification time given. In each case
  of an error the source logs a warning and goes on.
\<close>

datatype save_outcome =
    EnsureDirFailed
  | WriteRefused
  | WriteCutShort nat "real option"
  | Saved nat "real option"

definition remove_file :: "string \<Rightarrow> cache_file list \<Rightarrow> cache_file list" where
  "remove_file name dir = filter (\<lambda>f. fname f \<noteq> name) dir"

fun saveToFile ::
  "cache_file list option \<Rightarrow> string \<Rightarrow> CachedLogo \<Rightarrow> save_outcome \<Rightarrow> cache_file list option" where
  "saveToFile dir promptHash cached EnsureDirFailed = dir"
| "saveToFile dir promptHash cached WriteRefused = Some (files_of dir)"
| "saveToFile dir promptHash cached (WriteCutShort sz mt) =
     Some (remove_file promptHash (files_of dir) @
             [\<lparr>fname = promptHash, parsed = None, fsize = sz, mtime = mt\<rparr>])"
| "saveToFile dir promptHash cached (Saved sz mt) =
     Some (remove_file promptHash (files_of dir) @
             [\<lparr>fname = promptHash, parsed = Some cached, fsize = sz, mtime = mt\<rparr>])"

text \<open>
  \<open>get\<close>. Every operation of the cache reads the clock once in this model: the calls of
  \<open>Date.now()\<close> inside one operation are taken to return the same millisecond.
\<close>

definition get :: "CacheManager \<Rightarrow> string \<Rightarrow> real \<Rightarrow> CachedLogo option \<times> CacheManager" where
  "get cm promptHash now =
     (case (case memoryCache cm promptHash of
              None \<Rightarrow> None
            | Some memCached \<Rightarrow> if \<not> isExpired now memCached then Some memCached else None) of
        Some memCached \<Rightarrow> (Some (memCached\<lparr>hit := True\<rparr>), cm)
      | None \<Rightarrow>
          (case getFromFile (cacheDir cm) promptHash of
             None \<Rightarrow> (None, cm)
           | Some fileCached \<Rightarrow>
               if \<not> isExpired now fileCached then
                 (Some (fileCached\<lparr>hit := True\<rparr>),
                  cm\<lparr>memoryCache := (memoryCache cm)(promptHash \<mapsto> fileCached)\<rparr>)
               else (None, cm)))"

text \<open>
  \<open>cleanupBySize\<close>: the files sorted by modification time (\<open>null\<close> counts as the epoch;
  the sort is stable), then removed from the oldest on while the running size is above
  80 % of the maximum.
\<close>

definition mtime_ms :: "cache_file \<Rightarrow> real" where
  "mtime_ms f = (case mtime f of None \<Rightarrow> 0 | Some t \<Rightarrow> t)"

definition total_size :: "cache_file list \<Rightarrow> nat" where
  "total_size files = sum_list (map fsize files)"

fun evict :: "cache_file list \<Rightarrow> real \<Rightarrow> real \<Rightarrow> cache_file list \<Rightarrow> cache_file list" where
  "evict [] currentSize maxSz dir = dir"
| "evict (file # files) currentSize maxSz dir =
     (if currentSize \<le> maxSz * 0.8 then dir
      else evict files (currentSize - real (fsize file)) maxSz (remove_file (fname file) dir))"

definition cleanupBySize :: "cache_file list \<Rightarrow> real \<Rightarrow> cache_file list" where
  "cleanupBySize dir maxSz =
     (let files = sort_key mtime_ms dir;
          currentSize = real (total_size files)
      in evict files currentSize maxSz dir)"

text \<open>
  The number of files that the loop of \<open>cleanupBySize\<close> removes, and their names in the
  order of their removal.
\<close>

fun evict_count :: "cache_file list \<Rightarrow> real \<Rightarrow> real \<Rightarrow> nat" where
  "evict_count [] currentSize maxSz = 0"
| "evict_count (file # files) currentSize maxSz =
     (if currentSize \<le> maxSz * 0.8 then 0
      else Suc (evict_count files (currentSize - real (fsize file)) maxSz))"

definition eviction_order :: "cache_file list \<Rightarrow> real \<Rightarrow> string list" where
  "eviction_order dir maxSz =
     (let files = sort_key mtime_ms dir;
          currentSize = real (total_size files)
      in map fname (take (evict_count files currentSize maxSz) files))"

text \<open>
  \<open>cleanup\<close>. When the cache directory does not exist the pass returns at once, before
  the sweep of the memory map. Otherwise it scans the directory, where a file whose text
  cannot be read or parsed is marked like an expired one, removes the marked files, calls
  \<open>cleanupBySize\<close> when the size summed up during the scan (before any removal) is above
  the maximum, and sweeps the memory map. The second argument is the clock; the third says
  how far the file system lets the pass go: to its end, or to an I/O error (in a listing,
  a \<open>Deno.stat\<close> or a \<open>Deno.remove\<close>) after the given number of removals. The error is
  caught by the outer \<open>catch\<close>, which abandons the pass where it stands: the removals
  made so far stay (marked files first, in the order of the scan, then the evictions,
  oldest first) and the memory map is not swept. A number beyond the removals of the
  whole pass stands for all of them.
\<close>

datatype pass_io = Completes | Abandoned nat

definition marked_for_deletion :: "real \<Rightarrow> cache_file \<Rightarrow> bool" where
  "marked_for_deletion now f =
     (case parsed f of None \<Rightarrow> True | Some cached \<Rightarrow> isExpired now cached)"

definition cleanup :: "CacheManager \<Rightarrow> real \<Rightarrow> pass_io \<Rightarrow> CacheManager" where
  "cleanup cm now io =
     (case cacheDir cm of
        None \<Rightarrow> cm
      | Some files \<Rightarrow>
          (let totalSize = real (total_size files);
               expiredFiles = map fname (filter (marked_for_deletion now) files);
               dir1 = fold remove_file expiredFiles files;
               dir2 = (if totalSize > maxSize cm then cleanupBySize dir1 (maxSize cm) else dir1);
               mem = (\<lambda>key. case memoryCache cm key of
                               None \<Rightarrow> None
                             | Some cached \<Rightarrow> if isExpired now cached then None else Some cached)
           in case io of
                Completes \<Rightarrow> cm\<lparr>cacheDir := Some dir2, memoryCache := mem\<rparr>
              | Abandoned k \<Rightarrow>
                  (let removals = expiredFiles @
                         (if totalSize > maxSize cm then eviction_order dir1 (maxSize cm) else [])
                   in cm\<lparr>cacheDir := Some (fold remove_file (take k removals) files)\<rparr>)))"

text \<open>
  \<open>set\<close>: \<open>io\<close> is what the file system does with the write, \<open>rnd\<close> the result of
  \<open>Math.random()\<close>, and \<open>cleanupNow\<close> and \<open>pass\<close> the clock and the file system of the
  cleanup pass when it runs.
\<close>

definition set_cached ::
  "CacheManager \<Rightarrow> string \<Rightarrow> LogoResult \<Rightarrow> real \<Rightarrow> save_outcome \<Rightarrow> real \<Rightarrow> real \<Rightarrow> pass_io \<Rightarrow>
     CacheManager" where
  "set_cached cm promptHash result now io rnd cleanupNow pass =
     (let cached = \<lparr>payload = result, expiresAt = now + ttl cm, hit = False\<rparr>;
          cm1 = cm\<lparr>memoryCache := (memoryCache cm)(promptHash \<mapsto> cached)\<rparr>;
          cm2 = cm1\<lparr>cacheDir := saveToFile (cacheDir cm1) promptHash cached io\<rparr>
      in if rnd < 0.1 then cleanup cm2 cleanupNow pass else cm2)"

text \<open>
  \<open>createPromptHash\<close>. The first argument stands for the library call
  \<open>encodeHex(crypto.subtle.digestSync("SHA-256", encode(input)))\<close>. \<open>Array.prototype.sort\<close>
  without a comparator orders strings by their UTF-16 code units; \<^const>\<open>sort\<close> orders the
  byte lists lexicographically, which is the same order unless a character above U+FFFF is
  compared with one from U+E000 on. Both sorts return the same list for every arrangement
  of the same colours.
\<close>

definition createPromptHash ::
  "(string \<Rightarrow> string) \<Rightarrow> string \<Rightarrow> string \<Rightarrow> string option \<Rightarrow> string list option \<Rightarrow> string" where
  "createPromptHash sha256_hex company prompt style colors =
     (let input = company @ '':'' @ prompt @ '':'' @ or_else style ''default'' @ '':'' @
                  or_else (map_option (\<lambda>cs. join '','' (sort cs)) colors) []
      in take 16 (sha256_hex input))"

definition hexdigits :: "char set" where
  "hexdigits = set ''0123456789abcdef''"

section \<open>Prompt engine (core/prompts.ts)\<close>

record GenerationOptions =
  opt_style :: "string option"
  opt_industry :: "string option"
  opt_colors :: "string list option"
  opt_size :: "string option"
  opt_quality :: "string option"
  opt_template :: "string option"
  opt_negativePrompts :: "string list option"
  opt_customElements :: "string list option"

text \<open>
  The fields \<open>variations\<close>, \<open>model\<close>, \<open>iteration\<close> and \<open>quiet\<close> of \<open>GenerationOptions\<close>
  are read by the command-line front end only and are left out. \<open>no_options\<close> is the
  default argument \<open>{}\<close>.
\<close>

definition no_options :: GenerationOptions where
  "no_options =
     \<lparr>opt_style = None, opt_industry = None, opt_colors = None, opt_size = None,
      opt_quality = None, opt_template = None, opt_negativePrompts = None,
      opt_customElements = None\<rparr>"

text \<open>Truthiness of an optional string, and \<open>a || b\<close> where \<open>b\<close> may be \<open>undefined\<close> too.\<close>

definition truthy :: "string option \<Rightarrow> bool" where
  "truthy x = (case x of None \<Rightarrow> False | Some s \<Rightarrow> s \<noteq> [])"

definition or_opt :: "string option \<Rightarrow> string option \<Rightarrow> string option" where
  "or_opt a b = (if truthy a then a else b)"

record PromptTemplate =
  pt_base :: string
  pt_modifiers :: "string list"
  pt_negative :: "string list"
  pt_styleElements :: "string list"

text \<open>The two \<open>Map\<close>s that the constructor fills, as association lists (the keys are distinct).\<close>

definition templates :: "(string \<times> PromptTemplate) list" where
  "templates =
    [(''technology'',
      \<lparr>pt_base = ''minimalist tech logo with geometric elements'',
       pt_modifiers = [''circuit patterns'', ''digital aesthetic'', ''innovation theme''],
       pt_negative = [''no photorealistic details'', ''no complex shading''],
       pt_styleElements = [''clean lines'', ''modern typography'', ''tech symbols'']\<rparr>),
     (''healthcare'',
      \<lparr>pt_base = ''medical logo with caring symbolism'',
       pt_modifiers = [''calming presence'', ''trustworthy design'', ''health-focused''],
       pt_negative = [''no aggressive imagery'', ''no dark themes''],
       pt_styleElements = [''medical cross'', ''heart symbol'', ''caring hands'']\<rparr>),
     (''finance'',
      \<lparr>pt_base = ''financial services logo conveying trust'',
       pt_modifiers = [''stability'', ''growth'', ''security''],
       pt_negative = [''no playful elements'', ''no informal styling''],
       pt_styleElements = [''upward arrows'', ''shield symbols'', ''professional typography'']\<rparr>),
     (''retail'',
      \<lparr>pt_base = ''retail brand logo appealing to customers'',
       pt_modifiers = [''approachable'', ''shopping-focused'', ''brand recognition''],
       pt_negative = [''no corporate coldness'', ''no complexity''],
       pt_styleElements = [''shopping symbols'', ''friendly typography'', ''retail colors'']\<rparr>),
     (''food'',
      \<lparr>pt_base = ''food and beverage logo with appetite appeal'',
       pt_modifiers = [''appetizing'', ''fresh'', ''quality ingredients''],
       pt_negative = [''no industrial look'', ''no cold colors''],
       pt_styleElements = [''food symbols'', ''warm colors'', ''inviting design'']\<rparr>),
     (''education'',
      \<lparr>pt_base = ''educational logo promoting learning'',
       pt_modifiers = [''knowledge'', ''growth'', ''academic excellence''],
       pt_negative = [''no childish elements'', ''no outdated symbols''],
       pt_styleElements = [''book symbols'', ''graduation caps'', ''learning icons'']\<rparr>)]"

definition styleModifiers :: "(string \<times> string) list" where
  "styleModifiers =
    [(''modern'', ''contemporary design, sleek lines, current trends''),
     (''vintage'', ''retro aesthetic, classic elements, nostalgic feel''),
     (''minimal'', ''simple clean design, essential elements only, whitespace''),
     (''playful'', ''vibrant colors, dynamic composition, fun elements''),
     (''classic'', ''timeless design, traditional elements, elegant''),
     (''bold'', ''strong visual impact, dramatic elements, confident''),
     (''elegant'', ''refined aesthetics, sophisticated, premium feel''),
     (''tech'', ''futuristic elements, digital theme, innovation'')]"

definition buildBasePrompt :: "LogoRequest \<Rightarrow> string \<Rightarrow> string option \<Rightarrow> string" where
  "buildBasePrompt request style industry =
     (let template = (case industry of
                        None \<Rightarrow> None
                      | Some i \<Rightarrow> if i = [] then None else map_of templates i);
          baseDescription = or_else (map_option pt_base template) ''professional logo''
      in style @ '' '' @ baseDescription @ '' for '' @ req_company request @ '': '' @
         req_prompt request)"

definition addStyleElements :: "string \<Rightarrow> string \<Rightarrow> string" where
  "addStyleElements prompt style =
     (let styleElements = or_else (map_of styleModifiers style) []
      in prompt @ '', '' @ styleElements)"

definition addColorGuidance :: "string \<Rightarrow> string list option \<Rightarrow> string" where
  "addColorGuidance prompt colors =
     (case colors of
        None \<Rightarrow> prompt
      | Some cs \<Rightarrow>
          if length cs = 0 then prompt
          else (let colorGuidance =
                      (if length cs = 1 then ''primarily '' @ cs ! 0 @ '' color scheme''
                       else ''using '' @ join '', '' (butlast cs) @ '' and '' @ last cs @ '' colors'')
                in prompt @ '', '' @ colorGuidance))"

definition qualityModifiers :: "string list" where
  "qualityModifiers =
     [''clean geometric shapes'', ''scalable vector design'', ''professional quality'',
      ''suitable for branding'', ''on white background'', ''high contrast'',
      ''memorable and distinctive'']"

definition addQualityModifiers :: "string \<Rightarrow> string" where
  "addQualityModifiers prompt = prompt @ '', '' @ join '', '' qualityModifiers"

text \<open>\<open>options.colors || request.colors\<close>: an array, even an empty one, is truthy.\<close>

definition colors_or :: "string list option \<Rightarrow> string list option \<Rightarrow> string list option" where
  "colors_or a b = (case a of None \<Rightarrow> b | Some cs \<Rightarrow> Some cs)"

definition optimize :: "LogoRequest \<Rightarrow> GenerationOptions \<Rightarrow> string" where
  "optimize request options =
     (let style = or_else (opt_style options) (or_else (req_style request) ''modern'');
          industry = or_opt (opt_industry options) (req_industry request);
          optimizedPrompt1 = buildBasePrompt request style industry;
          optimizedPrompt2 = addStyleElements optimizedPrompt1 style;
          optimizedPrompt3 =
            addColorGuidance optimizedPrompt2 (colors_or (opt_colors options) (req_colors request))
      in addQualityModifiers optimizedPrompt3)"

section \<open>Professional prompt engine (core/professional-prompts.ts)\<close>

text \<open>
  Of a \<open>ProfessionalTemplate\<close> the fields that prompt generation and the catalogue
  queries read; names, descriptions, parameter lists and examples are left out. A
  character outside ASCII is given by the bytes of its UTF-8 encoding.
\<close>

record ProfessionalTemplate =
  tpl_id :: string
  tpl_category :: string
  tpl_basePrompt :: string
  tpl_negativePrompts :: "string list"
  tpl_industryFit :: "string list"

definition professionalTemplates :: "ProfessionalTemplate list" where
  "professionalTemplates =
    [
     \<lparr>tpl_id = ''minimal-geometric'', tpl_category = ''minimal'',
      tpl_basePrompt =
        ''Minimalist geometric logo, [SHAPE] form, flat vector design, [PRIMARY_COLOR] on white background, sharp edges, scalable'',
      tpl_negativePrompts = [''no gradients'', ''no 3D effects'', ''no ornate details''],
      tpl_industryFit = []\<rparr>,
     \<lparr>tpl_id = ''minimal-lettermark'', tpl_category = ''minimal'',
      tpl_basePrompt =
        ''Single letter [LETTER] logo, sans-serif, bold weight, flat design, [PRIMARY_COLOR] monochrome, centered composition on white background'',
      tpl_negativePrompts = [''no decorative elements'', ''no complex styling'', ''no shadows''],
      tpl_industryFit = []\<rparr>,
     \<lparr>tpl_id = ''corporate-tech'', tpl_category = ''corporate'',
      tpl_basePrompt =
        ''Modern tech company logo featuring [ELEMENT], clean minimalist style, [PRIMARY_COLOR] and [SECONDARY_COLOR] color scheme, vector design, professional, white background'',
      tpl_negativePrompts = [''no realistic details'', ''no ornate elements'', ''no vintage styling''],
      tpl_industryFit = [''technology'']\<rparr>,
     \<lparr>tpl_id = ''corporate-finance'', tpl_category = ''corporate'',
      tpl_basePrompt =
        ''Conservative financial logo, [SYMBOL] emblem, navy blue and gray palette, professional grade, symmetric composition, trustworthy design'',
      tpl_negativePrompts = [''no casual elements'', ''no bright colors'', ''no playful styling''],
      tpl_industryFit = [''finance'']\<rparr>,
     \<lparr>tpl_id = ''industry-healthcare'', tpl_category = ''industry-specific'',
      tpl_basePrompt =
        ''Medical [SPECIALTY] logo, [MEDICAL_SYMBOL], calming [PRIMARY_COLOR] palette, rounded shapes, trustworthy design, clean vector on white'',
      tpl_negativePrompts = [''no sharp angles'', ''no aggressive imagery'', ''no dark themes''],
      tpl_industryFit = [''healthcare'']\<rparr>,
     \<lparr>tpl_id = ''creative-abstract'', tpl_category = ''creative'',
      tpl_basePrompt =
        ''Abstract creative logo inspired by [ART_MOVEMENT], bold [COLOR_PALETTE], dynamic composition, artistic expression, vector style'',
      tpl_negativePrompts = [''no photorealistic elements'', ''no literal imagery''],
      tpl_industryFit = [''creative'']\<rparr>,
     \<lparr>tpl_id = ''minimal-abstract'', tpl_category = ''minimal'',
      tpl_basePrompt =
        ''Abstract minimal logo, flowing [SHAPE] design, [PRIMARY_COLOR] gradient, artistic simplicity, vector style on white background'',
      tpl_negativePrompts = [''no complex details'', ''no realistic elements'', ''no busy patterns''],
      tpl_industryFit = []\<rparr>,
     \<lparr>tpl_id = ''corporate-consulting'', tpl_category = ''corporate'',
      tpl_basePrompt =
        ''Professional consulting logo, clean [SYMBOL], sophisticated [PRIMARY_COLOR] and gray palette, business-grade typography, trustworthy design'',
      tpl_negativePrompts = [''no casual styling'', ''no playful elements'', ''no bright colors''],
      tpl_industryFit = [''consulting'']\<rparr>,
     \<lparr>tpl_id = ''corporate-professional'', tpl_category = ''corporate'',
      tpl_basePrompt =
        ''Clean professional business logo, [ELEMENT] symbol, modern [PRIMARY_COLOR] palette, scalable design, corporate identity'',
      tpl_negativePrompts = [''no informal elements'', ''no artistic flourishes'', ''no complex imagery''],
      tpl_industryFit = [''consulting'', ''finance'', ''technology'']\<rparr>,
     \<lparr>tpl_id = ''creative-artistic'', tpl_category = ''creative'',
      tpl_basePrompt =
        ''Artistic logo inspired by [ART_STYLE], creative expression, bold [COLOR_PALETTE], dynamic visual impact, artistic vector design'',
      tpl_negativePrompts = [''no corporate styling'', ''no conservative colors'', ''no rigid structure''],
      tpl_industryFit = [''creative'', ''entertainment'']\<rparr>,
     \<lparr>tpl_id = ''creative-playful'', tpl_category = ''creative'',
      tpl_basePrompt =
        ''Playful creative logo, fun [ELEMENT], bright [COLOR_PALETTE], friendly design, approachable aesthetic, vector style'',
      tpl_negativePrompts = [''no serious tone'', ''no dark colors'', ''no formal structure''],
      tpl_industryFit = [''creative'', ''education'']\<rparr>,
     \<lparr>tpl_id = ''industry-tech'', tpl_category = ''industry-specific'',
      tpl_basePrompt =
        ''Technology logo featuring [TECH_ELEMENT], innovative design, [PRIMARY_COLOR] tech palette, modern digital aesthetic, scalable vector'',
      tpl_negativePrompts = [''no outdated styling'', ''no organic elements'', ''no handwritten fonts''],
      tpl_industryFit = [''technology'']\<rparr>,
     \<lparr>tpl_id = ''industry-finance'', tpl_category = ''industry-specific'',
      tpl_basePrompt =
        ''Financial services logo, [SYMBOL] emblem, trustworthy [PRIMARY_COLOR] palette, stable design, professional banking aesthetic'',
      tpl_negativePrompts = [''no risky imagery'', ''no bright colors'', ''no playful elements''],
      tpl_industryFit = [''finance'']\<rparr>,
     \<lparr>tpl_id = ''industry-food'', tpl_category = ''industry-specific'',
      tpl_basePrompt =
        ''Food and beverage logo, [FOOD_ELEMENT], appetizing [COLOR_PALETTE], warm inviting design, culinary aesthetic, vector style'',
      tpl_negativePrompts = [''no cold colors'', ''no industrial look'', ''no tech elements''],
      tpl_industryFit = [''food'']\<rparr>,
     \<lparr>tpl_id = ''industry-education'', tpl_category = ''industry-specific'',
      tpl_basePrompt =
        ''Educational logo featuring [EDU_SYMBOL], learning-focused design, [PRIMARY_COLOR] academic palette, trustworthy educational aesthetic'',
      tpl_negativePrompts = [''no childish elements'', ''no commercial styling'', ''no bright neon''],
      tpl_industryFit = [''education'']\<rparr>,
     \<lparr>tpl_id = ''minimal-wordmark'', tpl_category = ''minimal'',
      tpl_basePrompt =
        ''Clean wordmark logo for [COMPANY], minimal typography, [PRIMARY_COLOR] lettering, modern sans-serif style, simple and readable'',
      tpl_negativePrompts = [''no decorative elements'', ''no symbols'', ''no complex styling''],
      tpl_industryFit = []\<rparr>,
     \<lparr>tpl_id = ''minimal-emblem'', tpl_category = ''minimal'',
      tpl_basePrompt =
        ''Simple emblem logo, circular badge design, [COMPANY] text, [PRIMARY_COLOR] and white, clean minimal styling, vector badge'',
      tpl_negativePrompts = [''no ornate details'', ''no complex patterns'', ''no gradients''],
      tpl_industryFit = []\<rparr>,
     \<lparr>tpl_id = ''corporate-startup'', tpl_category = ''corporate'',
      tpl_basePrompt =
        ''Modern startup logo, innovative [ELEMENT], fresh [PRIMARY_COLOR] palette, dynamic design, entrepreneurial spirit, scalable vector'',
      tpl_negativePrompts = [''no traditional styling'', ''no conservative colors'', ''no formal structure''],
      tpl_industryFit = [''technology'']\<rparr>,
     \<lparr>tpl_id = ''corporate-legal'', tpl_category = ''corporate'',
      tpl_basePrompt =
        ''Legal services logo, [LEGAL_SYMBOL], authoritative [PRIMARY_COLOR] palette, professional law firm design, trustworthy aesthetic'',
      tpl_negativePrompts = [''no casual elements'', ''no bright colors'', ''no playful styling''],
      tpl_industryFit = [''legal'']\<rparr>,
     \<lparr>tpl_id = ''creative-modern'', tpl_category = ''creative'',
      tpl_basePrompt =
        ''Modern creative logo, contemporary [ELEMENT], sophisticated [COLOR_PALETTE], artistic yet professional, creative industry standard'',
      tpl_negativePrompts = [''no outdated styling'', (''no clich'' @ [CHR 0xE2, CHR 0x88, CHR 0x9A, CHR 0xC2, CHR 0xA9] @ '' elements''), ''no overly busy design''],
      tpl_industryFit = [''creative'']\<rparr>,
     \<lparr>tpl_id = ''creative-handcraft'', tpl_category = ''creative'',
      tpl_basePrompt =
        ''Handcraft artisan logo, [CRAFT_ELEMENT], organic [COLOR_PALETTE], handmade aesthetic, artisanal quality, authentic design'',
      tpl_negativePrompts = [''no digital styling'', ''no corporate look'', ''no perfect geometry''],
      tpl_industryFit = [''creative'']\<rparr>,
     \<lparr>tpl_id = ''creative-entertainment'', tpl_category = ''creative'',
      tpl_basePrompt =
        ''Entertainment logo, [MEDIA_ELEMENT], dynamic [COLOR_PALETTE], energetic design, entertainment industry standard, engaging visual'',
      tpl_negativePrompts = [''no boring design'', ''no corporate styling'', ''no muted colors''],
      tpl_industryFit = [''entertainment'']\<rparr>,
     \<lparr>tpl_id = ''industry-real-estate'', tpl_category = ''industry-specific'',
      tpl_basePrompt =
        ''Real estate logo, [PROPERTY_SYMBOL], trustworthy [PRIMARY_COLOR] palette, professional property design, real estate industry standard'',
      tpl_negativePrompts = [''no casual styling'', ''no playful elements'', ''no bright colors''],
      tpl_industryFit = [''real-estate'']\<rparr>,
     \<lparr>tpl_id = ''industry-automotive'', tpl_category = ''industry-specific'',
      tpl_basePrompt =
        ''Automotive logo, [AUTO_ELEMENT], strong [PRIMARY_COLOR] palette, mechanical precision, automotive industry aesthetic, durable design'',
      tpl_negativePrompts = [''no delicate elements'', ''no pastel colors'', ''no organic shapes''],
      tpl_industryFit = [''automotive'']\<rparr>,
     \<lparr>tpl_id = ''industry-wellness'', tpl_category = ''industry-specific'',
      tpl_basePrompt =
        ''Health and wellness logo, [WELLNESS_SYMBOL], calming [PRIMARY_COLOR] palette, holistic design, wellness industry aesthetic, balanced composition'',
      tpl_negativePrompts = [''no medical symbols'', ''no harsh colors'', ''no rigid geometry''],
      tpl_industryFit = [''healthcare'']\<rparr>,
     \<lparr>tpl_id = ''industry-nonprofit'', tpl_category = ''industry-specific'',
      tpl_basePrompt =
        ''Non-profit logo, [MISSION_SYMBOL], compassionate [PRIMARY_COLOR] palette, community-focused design, charitable organization aesthetic'',
      tpl_negativePrompts = [''no commercial styling'', ''no luxury elements'', ''no corporate coldness''],
      tpl_industryFit = [''nonprofit'']\<rparr>
    ]"

text \<open>The \<open>Map\<close> from template id to template.\<close>

definition template_map :: "string \<rightharpoonup> ProfessionalTemplate" where
  "template_map = map_of (map (\<lambda>t. (tpl_id t, t)) professionalTemplates)"

text \<open>\<open>throw new Error(msg)\<close> throws a plain error with that message.\<close>

definition new_Error :: "string \<Rightarrow> js_error" where
  "new_Error msg = \<lparr>isRateLimitInstance = False, message = Some msg\<rparr>"

text \<open>
  \<open>getStyleKeywords\<close>. The table is an object literal indexed by the style; the styles are
  the members of \<open>LogoStyle\<close> and other strings that are not property names of
  \<open>Object.prototype\<close>.
\<close>

definition styleMap :: "(string \<times> string) list" where
  "styleMap =
    [(''modern'', ''Contemporary minimalist''),
     (''minimal'', ''Clean minimal geometric''),
     (''geometric'', ''Simple geometric flat''),
     (''abstract'', ''Abstract artistic''),
     (''corporate'', ''Professional corporate''),
     (''tech'', ''Modern tech sleek''),
     (''elegant'', ''Sophisticated elegant''),
     (''bold'', ''Strong bold impactful''),
     (''vintage'', ''Classic vintage retro''),
     (''playful'', ''Creative playful dynamic''),
     (''classic'', ''Traditional classic timeless''),
     (''wordmark'', ''Typography-focused wordmark''),
     (''lettermark'', ''Letter-based minimal''),
     (''pictorial'', ''Symbolic pictorial''),
     (''emblem'', ''Badge emblem''),
     (''combination'', ''Combined symbol-text'')]"

definition getStyleKeywords :: "string \<Rightarrow> string" where
  "getStyleKeywords style = or_else (map_of styleMap style) ''Professional''"

definition getTechnicalRequirements :: "GenerationOptions \<Rightarrow> string" where
  "getTechnicalRequirements options =
     (let requirements =
            [''flat vector design'', ''scalable'', ''professional quality'', ''high contrast''];
          requirements1 =
            (case opt_colors options of
               None \<Rightarrow> requirements
             | Some cs \<Rightarrow>
                 if length cs > 0 then
                   requirements @
                     [if length cs = 1 then cs ! 0 @ '' color scheme''
                      else ''using '' @ join '', '' (butlast cs) @ '' and '' @ last cs @ '' colors'']
                 else requirements);
          requirements2 =
            (case opt_customElements options of
               None \<Rightarrow> requirements1
             | Some elements \<Rightarrow> requirements1 @ elements)
      in join '', '' requirements2)"

definition getDefaultNegatives :: "string list" where
  "getDefaultNegatives =
     [''no realistic details'', ''no photorealistic details'', ''no shading detail'',
      ''no gradients'', ''no 3D effects'', ''no complex textures'']"

text \<open>
  \<open>str.replace(/pattern/g, replacement)\<close> for a pattern that matches one fixed, non-empty
  text. The replacement string is expanded as the language prescribes: \<open>$$\<close> is a dollar
  sign, \<open>$&\<close> the matched text, \<open>$`\<close> the text before the match and \<open>$'\<close> the text
  after it (both of the original string); the patterns here have no groups, so every
  other \<open>$\<close> stands for itself.
\<close>

fun getSubstitution :: "string \<Rightarrow> string \<Rightarrow> string \<Rightarrow> string \<Rightarrow> string" where
  "getSubstitution matched preceding following [] = []"
| "getSubstitution matched preceding following [c] = [c]"
| "getSubstitution matched preceding following (c # d # rest) =
     (if c = CHR ''$'' \<and> d = CHR ''$'' then CHR ''$'' # getSubstitution matched preceding following rest
      else if c = CHR ''$'' \<and> d = CHR ''&'' then matched @ getSubstitution matched preceding following rest
      else if c = CHR ''$'' \<and> d = CHR 0x60 then preceding @ getSubstitution matched preceding following rest
      else if c = CHR ''$'' \<and> d = CHR 0x27 then following @ getSubstitution matched preceding following rest
      else c # getSubstitution matched preceding following (d # rest))"

function replace_from :: "string \<Rightarrow> string \<Rightarrow> string \<Rightarrow> string \<Rightarrow> string" where
  "replace_from pat rep preceding [] = []"
| "replace_from pat rep preceding (c # cs) =
     (if pat \<noteq> [] \<and> prefix pat (c # cs) then
        getSubstitution pat preceding (drop (length pat) (c # cs)) rep @
        replace_from pat rep (preceding @ pat) (drop (length pat) (c # cs))
      else c # replace_from pat rep (preceding @ [c]) cs)"
  by pat_completeness auto
termination
  by (relation "measure (\<lambda>(pat, rep, preceding, s). length s)") (auto simp: neq_Nil_conv)

definition replace_all :: "string \<Rightarrow> string \<Rightarrow> string \<Rightarrow> string" where
  "replace_all pat rep s = replace_from pat rep [] s"

definition interpolateTemplate :: "string \<Rightarrow> LogoRequest \<Rightarrow> GenerationOptions \<Rightarrow> string" where
  "interpolateTemplate template request options =
     (let result1 = replace_all ''[COMPANY]'' (req_company request) template;
          result2 = replace_all ''[PROMPT]'' (req_prompt request) result1;
          result3 = replace_all ''[STYLE]'' (or_else (opt_style options) ''modern'') result2;
          result4 = replace_all ''[INDUSTRY]'' (or_else (opt_industry options) ''business'') result3
      in case opt_colors options of
           None \<Rightarrow> result4
         | Some cs \<Rightarrow>
             if length cs > 0 then
               (let result5 = replace_all ''[PRIMARY_COLOR]'' (cs ! 0) result4;
                    result6 = replace_all ''[SECONDARY_COLOR]''
                       (if length cs > 1 \<and> cs ! 1 \<noteq> [] then cs ! 1 else cs ! 0) result5
                in replace_all ''[COLOR_PALETTE]'' (join '' and '' cs) result6)
             else result4)"

text \<open>\<open>`${options.template}`\<close> prints \<open>undefined\<close> for a missing id.\<close>

definition template_text :: "string option \<Rightarrow> string" where
  "template_text t = (case t of None \<Rightarrow> ''undefined'' | Some s \<Rightarrow> s)"

definition generateFromTemplate :: "LogoRequest \<Rightarrow> GenerationOptions \<Rightarrow> js_error + string" where
  "generateFromTemplate request options =
     (case (case opt_template options of None \<Rightarrow> None | Some t \<Rightarrow> template_map t) of
        None \<Rightarrow> Inl (new_Error (''Template not found: '' @ template_text (opt_template options)))
      | Some template \<Rightarrow>
          (let prompt1 = interpolateTemplate (tpl_basePrompt template) request options;
               prompt2 = prompt1 @ getTechnicalRequirements options;
               negatives = tpl_negativePrompts template @
                 (case opt_negativePrompts options of None \<Rightarrow> [] | Some ns \<Rightarrow> ns)
           in Inr (if length negatives > 0 then prompt2 @ '' --'' @ join '' --'' negatives
                   else prompt2)))"

definition generateStructuredPrompt :: "LogoRequest \<Rightarrow> GenerationOptions \<Rightarrow> string" where
  "generateStructuredPrompt request options =
     (let parts =
            [getStyleKeywords (or_else (opt_style options) (or_else (req_style request) ''modern'')),
             ''logo of'',
             req_company request @ '', '' @ req_prompt request,
             getTechnicalRequirements options,
             ''on white background''];
          prompt = join '' '' parts;
          negatives = getDefaultNegatives @
            (case opt_negativePrompts options of None \<Rightarrow> [] | Some ns \<Rightarrow> ns)
      in trim (prompt @ '' --'' @ join '' --'' negatives))"

definition optimizePrompt :: "LogoRequest \<Rightarrow> GenerationOptions \<Rightarrow> js_error + string" where
  "optimizePrompt request options =
     (if truthy (opt_template options) then generateFromTemplate request options
      else Inr (generateStructuredPrompt request options))"

text \<open>
  The patterns that \<open>interpolateTemplate\<close> replaces under the given options, and the shape
  of a placeholder token: a name without brackets between \<open>[\<close> and \<open>]\<close>.
\<close>

definition replacement_set :: "GenerationOptions \<Rightarrow> string list" where
  "replacement_set options =
     [''[COMPANY]'', ''[PROMPT]'', ''[STYLE]'', ''[INDUSTRY]''] @
     (case opt_colors options of
        None \<Rightarrow> []
      | Some cs \<Rightarrow>
          if length cs > 0 then [''[PRIMARY_COLOR]'', ''[SECONDARY_COLOR]'', ''[COLOR_PALETTE]'']
          else [])"

definition bracket_free :: "string \<Rightarrow> bool" where
  "bracket_free name = list_all (\<lambda>c. c \<noteq> CHR ''['' \<and> c \<noteq> CHR '']'') name"

definition is_placeholder :: "string \<Rightarrow> bool" where
  "is_placeholder tok =
     (case tok of
        [] \<Rightarrow> False
      | c # rest \<Rightarrow>
          c = CHR ''['' \<and> rest \<noteq> [] \<and> last rest = CHR '']'' \<and> bracket_free (butlast rest))"

text \<open>
  Two texts cannot overlap in a string when no non-empty end piece of one is a beginning
  of the other or begins with the other.
\<close>

fun clear_of :: "string \<Rightarrow> string \<Rightarrow> bool" where
  "clear_of pat [] = True"
| "clear_of pat (c # cs) =
     (\<not> prefix pat (c # cs) \<and> \<not> prefix (c # cs) pat \<and> clear_of pat cs)"

definition no_overlap :: "string \<Rightarrow> string \<Rightarrow> bool" where
  "no_overlap pat tok = (clear_of pat tok \<and> clear_of tok pat)"

section \<open>Logo generator (core/generator.ts)\<close>

text \<open>
  The request sent to the image API, and what comes back: \<open>data\<close> may be missing or
  empty, and an image may lack its \<open>url\<close>.
\<close>

record APIParams =
  api_model :: string
  api_prompt :: string
  api_n :: nat
  api_size :: string
  api_quality :: string
  api_background :: string
  api_response_format :: string
  api_stream :: bool

record api_image =
  img_url :: "string option"
  img_revised_prompt :: "string option"

record api_response =
  resp_data :: "api_image list option"

text \<open>
  The two quality tables are object literals indexed by the quality, a member of
  \<open>ImageQuality\<close> or another string that is not a property name of \<open>Object.prototype\<close>.
\<close>

definition buildAPIParams :: "string \<Rightarrow> GenerationOptions \<Rightarrow> APIParams" where
  "buildAPIParams prompt options =
     (let qualityMap = [(''standard'', ''medium''), (''hd'', ''high'')];
          quality = or_else (map_of qualityMap (or_else (opt_quality options) ''standard'')) ''medium''
      in \<lparr>api_model = ''gpt-image-1'', api_prompt = prompt, api_n = 1,
          api_size = or_else (opt_size options) ''1024x1024'', api_quality = quality,
          api_background = ''transparent'', api_response_format = ''url'',
          api_stream = False\<rparr>)"

definition calculateCost :: "string \<Rightarrow> real" where
  "calculateCost quality =
     (case map_of [(''standard'', 0.07), (''hd'', 0.19)] quality of
        None \<Rightarrow> 0.07
      | Some c \<Rightarrow> c)"

text \<open>\<open>createMetadata\<close>; \<open>generateId()\<close> and \<open>Date.now()\<close> are passed in.\<close>

definition createMetadata ::
  "string \<Rightarrow> real \<Rightarrow> LogoRequest \<Rightarrow> string \<Rightarrow> GenerationOptions \<Rightarrow> LogoMetadata" where
  "createMetadata newId now request finalPrompt options =
     \<lparr>meta_id = newId, meta_timestamp = now, meta_company = req_company request,
      meta_originalPrompt = req_prompt request, meta_finalPrompt = finalPrompt,
      meta_style = or_else (opt_style options) (or_else (req_style request) ''modern''),
      meta_industry = or_opt (opt_industry options) (req_industry request),
      meta_size = or_else (opt_size options) (or_else (req_size request) ''1024x1024''),
      meta_quality = or_else (opt_quality options) (or_else (req_quality request) ''standard''),
      meta_cost = calculateCost (or_else (opt_quality options) ''standard'')\<rparr>"

text \<open>
  The first statement of \<open>generate\<close>: the professional engine when a template is
  selected, the prompt engine otherwise.
\<close>

definition optimizedPrompt :: "LogoRequest \<Rightarrow> GenerationOptions \<Rightarrow> js_error + string" where
  "optimizedPrompt request options =
     (if truthy (opt_template options) then optimizePrompt request options
      else Inr (optimize request options))"

text \<open>
  The operation handed to the retry strategy. \<open>client i params\<close> is the outcome of the
  \<open>i\<close>-th call of \<open>client.images.generate\<close>, and \<open>ids i\<close> the id and the time that the
  \<open>i\<close>-th invocation obtains for its metadata.
\<close>

definition api_operation ::
  "(nat \<Rightarrow> APIParams \<Rightarrow> js_error + api_response) \<Rightarrow> (nat \<Rightarrow> string \<times> real) \<Rightarrow>
   LogoRequest \<Rightarrow> GenerationOptions \<Rightarrow> string \<Rightarrow> nat \<Rightarrow> js_error + LogoResult" where
  "api_operation client ids request options prompt i =
     (case client i (buildAPIParams prompt options) of
        Inl error \<Rightarrow> Inl error
      | Inr response \<Rightarrow>
          (case resp_data response of
             None \<Rightarrow> Inl (new_Error ''No image generated from OpenAI'')
           | Some [] \<Rightarrow> Inl (new_Error ''No image generated from OpenAI'')
           | Some (imageData # others) \<Rightarrow>
               (case img_url imageData of
                  None \<Rightarrow> Inl (new_Error ''No URL returned from OpenAI API. Please try again.'')
                | Some imageUrl \<Rightarrow>
                    if imageUrl = [] then
                      Inl (new_Error ''No URL returned from OpenAI API. Please try again.'')
                    else
                      Inr \<lparr>res_url = imageUrl,
                           res_revisedPrompt = img_revised_prompt imageData,
                           res_metadata =
                             createMetadata (fst (ids i)) (snd (ids i)) request prompt options,
                           res_localPath = None\<rparr>)))"

text \<open>
  \<open>generate\<close>. The trace counts the invocations of the operation, each of which calls
  the image API exactly once; a failure of prompt generation is thrown before the retry
  strategy is entered.
\<close>

definition generate ::
  "(nat \<Rightarrow> APIParams \<Rightarrow> js_error + api_response) \<Rightarrow> (nat \<Rightarrow> real) \<Rightarrow> (nat \<Rightarrow> string \<times> real) \<Rightarrow>
   LogoRequest \<Rightarrow> GenerationOptions \<Rightarrow> (js_error option + LogoResult) \<times> retry_trace" where
  "generate client random ids request options =
     (case optimizedPrompt request options of
        Inl error \<Rightarrow> (Inl (Some error), trace0)
      | Inr prompt \<Rightarrow> execute (api_operation client ids request options prompt) random 3)"

section \<open>Batch command (cli/commands/batch.ts)\<close>

text \<open>\<open>String.prototype.split\<close> with a one-character separator: never an empty array.\<close>

fun split_on :: "char \<Rightarrow> string \<Rightarrow> string list" where
  "split_on sep [] = [[]]"
| "split_on sep (c # cs) =
     (if c = sep then [] # split_on sep cs
      else (case split_on sep cs of
              [] \<Rightarrow> [[c]]
            | w # ws \<Rightarrow> (c # w) # ws))"

text \<open>\<open>replace(/^"|"$/g, "")\<close>: one leading and one trailing double quote are removed.\<close>

definition strip_quotes :: "string \<Rightarrow> string" where
  "strip_quotes s =
     (let s1 = (case s of [] \<Rightarrow> [] | c # rest \<Rightarrow> if c = CHR 0x22 then rest else s)
      in if s1 \<noteq> [] \<and> last s1 = CHR 0x22 then butlast s1 else s1)"

text \<open>
  The request object while a row is being read. Its \<open>company\<close> and \<open>prompt\<close> start as
  empty strings; a cell beyond the end of the row reads as \<open>undefined\<close> (\<open>None\<close>).
\<close>

record row_request =
  d_company :: "string option"
  d_prompt :: "string option"
  d_style :: "string option"
  d_colors :: "string list option"
  d_size :: "string option"
  d_quality :: "string option"

definition empty_row :: row_request where
  "empty_row =
     \<lparr>d_company = Some [], d_prompt = Some [], d_style = None, d_colors = None,
      d_size = None, d_quality = None\<rparr>"

definition cell :: "string list \<Rightarrow> nat \<Rightarrow> string option" where
  "cell values idx = (if idx < length values then Some (values ! idx) else None)"

text \<open>The \<open>switch\<close> on the lower-cased header.\<close>

definition apply_header :: "string \<Rightarrow> string option \<Rightarrow> row_request \<Rightarrow> row_request" where
  "apply_header header v request =
     (if header = ''company'' then request\<lparr>d_company := v\<rparr>
      else if header = ''prompt'' \<or> header = ''description'' then request\<lparr>d_prompt := v\<rparr>
      else if header = ''style'' then request\<lparr>d_style := v\<rparr>
      else if header = ''colors'' then
        request\<lparr>d_colors :=
          (case v of
             None \<Rightarrow> None
           | Some s \<Rightarrow> if s = [] then None else Some (map trim (split_on CHR '';'' s)))\<rparr>
      else if header = ''size'' then request\<lparr>d_size := v\<rparr>
      else if header = ''quality'' then request\<lparr>d_quality := v\<rparr>
      else request)"

text \<open>\<open>headers.forEach((header, idx) => ...)\<close>, from index \<open>idx\<close> on.\<close>

fun apply_headers :: "string list \<Rightarrow> nat \<Rightarrow> string list \<Rightarrow> row_request \<Rightarrow> row_request" where
  "apply_headers [] idx values request = request"
| "apply_headers (header # headers) idx values request =
     apply_headers headers (Suc idx) values
       (apply_header (toLowerCase header) (cell values idx) request)"

text \<open>A row that is pushed has a company and a prompt; these are then plain strings.\<close>

definition pushed_request :: "row_request \<Rightarrow> LogoRequest" where
  "pushed_request request =
     \<lparr>req_company = or_else (d_company request) [], req_prompt = or_else (d_prompt request) [],
      req_style = d_style request, req_industry = None, req_colors = d_colors request,
      req_size = d_size request, req_quality = d_quality request\<rparr>"

text \<open>The body of the loop over the lines after the header: \<open>None\<close> when nothing is pushed.\<close>

definition parse_line :: "string list \<Rightarrow> string \<Rightarrow> LogoRequest option" where
  "parse_line headers line =
     (let values = map (\<lambda>v. strip_quotes (trim v)) (split_on CHR '','' line);
          request = apply_headers headers 0 values empty_row
      in if truthy (d_company request) \<and> truthy (d_prompt request)
         then Some (pushed_request request) else None)"

definition parseCSV :: "string \<Rightarrow> LogoRequest list" where
  "parseCSV content =
     (case split_on CHR 0x0A (trim content) of
        [] \<Rightarrow> []
      | first # others \<Rightarrow>
          (let headers = map trim (split_on CHR '','' first)
           in List.map_filter (parse_line headers) others))"

definition row_values :: "string \<Rightarrow> string list" where
  "row_values line = map (\<lambda>v. strip_quotes (trim v)) (split_on CHR '','' line)"

text \<open>Batch types (core/types.ts). A number is truthy when it is not zero.\<close>

record BatchRequest =
  batch_requests :: "LogoRequest list"
  batch_concurrency :: "nat option"
  batch_outputDir :: "string option"
  batch_iteration :: "nat option"
  batch_quiet :: "bool option"

record BatchStats =
  stats_total :: nat
  stats_successful :: nat
  stats_failed :: nat
  stats_totalCost :: real
  stats_duration :: real

record BatchResult =
  successful :: "LogoResult list"
  failed :: "(LogoRequest \<times> js_error) list"
  stats :: BatchStats

definition truthy_number :: "nat option \<Rightarrow> bool" where
  "truthy_number n = (case n of None \<Rightarrow> False | Some k \<Rightarrow> k \<noteq> 0)"

text \<open>The decimal digits of a number, for \<open>`${n} logos`\<close>.\<close>

function show_nat :: "nat \<Rightarrow> string" where
  "show_nat n =
     (if n < 10 then [char_of (48 + n)]
      else show_nat (n div 10) @ [char_of (48 + n mod 10)])"
  by pat_completeness auto
termination
  by (relation "measure id") auto

declare show_nat.simps [simp del]

text \<open>
  The \<open>try\<close> block of the task of request number \<open>i\<close>. The generator and the downloader
  are the parameters of \<open>processBatch\<close>: \<open>generator i\<close> and \<open>downloader i\<close> give the
  outcome of the call that task \<open>i\<close> makes (a thrown error is \<open>Inl\<close>).
\<close>

definition run_task ::
  "(nat \<Rightarrow> LogoRequest \<Rightarrow> GenerationOptions \<Rightarrow> js_error + LogoResult) \<Rightarrow>
   (nat \<Rightarrow> LogoResult \<Rightarrow> string \<Rightarrow> nat option \<Rightarrow> js_error + string) \<Rightarrow>
   BatchRequest \<Rightarrow> nat \<Rightarrow> LogoRequest \<Rightarrow> js_error + LogoResult" where
  "run_task generator downloader batch i request =
     (case generator i request
             (no_options\<lparr>opt_style := req_style request, opt_colors := req_colors request,
                         opt_size := req_size request, opt_quality := req_quality request\<rparr>) of
        Inl error \<Rightarrow> Inl error
      | Inr logoResult \<Rightarrow>
          (case batch_outputDir batch of
             None \<Rightarrow> Inr logoResult
           | Some outputDir \<Rightarrow>
               if outputDir = [] then Inr logoResult
               else (case downloader i logoResult outputDir (batch_iteration batch) of
                       Inl error \<Rightarrow> Inl error
                     | Inr localPath \<Rightarrow> Inr (logoResult\<lparr>res_localPath := Some localPath\<rparr>))))"

text \<open>
  What a task does to the shared \<open>results\<close> when it finishes: the statements after its
  last \<open>await\<close>, or its \<open>catch\<close> block, both of which run without interruption.
\<close>

definition settle ::
  "(nat \<Rightarrow> LogoRequest \<Rightarrow> GenerationOptions \<Rightarrow> js_error + LogoResult) \<Rightarrow>
   (nat \<Rightarrow> LogoResult \<Rightarrow> string \<Rightarrow> nat option \<Rightarrow> js_error + string) \<Rightarrow>
   BatchRequest \<Rightarrow> nat \<Rightarrow> BatchResult \<Rightarrow> BatchResult" where
  "settle generator downloader batch i results =
     (if i < length (batch_requests batch) then
        (let request = batch_requests batch ! i in
         case run_task generator downloader batch i request of
           Inr logoResult \<Rightarrow>
             results\<lparr>successful := successful results @ [logoResult],
                     stats := (stats results)
                       \<lparr>stats_successful := stats_successful (stats results) + 1,
                        stats_totalCost := stats_totalCost (stats results) +
                          meta_cost (res_metadata logoResult)\<rparr>\<rparr>
         | Inl error \<Rightarrow>
             results\<lparr>failed := failed results @ [(request, error)],
                     stats := (stats results)
                       \<lparr>stats_failed := stats_failed (stats results) + 1\<rparr>\<rparr>)
      else results)"

text \<open>
  \<open>processBatch\<close>. The tasks run under \<open>pLimit\<close>; \<open>order\<close> lists the request numbers in
  the order in which their tasks finish, which the concurrency limit and the timing of
  the calls decide. \<open>manifest\<close> stands for \<open>downloader.createIterationManifest\<close>, which
  either writes the manifest (\<open>None\<close>) or throws.
\<close>

definition processBatch ::
  "(nat \<Rightarrow> LogoRequest \<Rightarrow> GenerationOptions \<Rightarrow> js_error + LogoResult) \<Rightarrow>
   (nat \<Rightarrow> LogoResult \<Rightarrow> string \<Rightarrow> nat option \<Rightarrow> js_error + string) \<Rightarrow>
   (string \<Rightarrow> nat \<Rightarrow> string \<Rightarrow> LogoResult list \<Rightarrow> js_error option) \<Rightarrow>
   BatchRequest \<Rightarrow> nat list \<Rightarrow> js_error + BatchResult" where
  "processBatch generator downloader manifest batch order =
     (let results0 =
            \<lparr>successful = [], failed = [],
             stats = \<lparr>stats_total = length (batch_requests batch), stats_successful = 0,
                      stats_failed = 0, stats_totalCost = 0, stats_duration = 0\<rparr>\<rparr>;
          results = fold (settle generator downloader batch) order results0
      in if truthy_number (batch_iteration batch) \<and> truthy (batch_outputDir batch) \<and>
            length (successful results) > 0 then
           (case manifest (or_else (batch_outputDir batch) [])
                   (case batch_iteration batch of None \<Rightarrow> 0 | Some k \<Rightarrow> k)
                   (''Batch generation: '' @ show_nat (length (batch_requests batch)) @ '' logos'')
                   (successful results) of
              Some error \<Rightarrow> Inl error
            | None \<Rightarrow> Inr results)
         else Inr results)"

section \<open>Sample data\<close>

text \<open>
  Concrete requests, options, files and collaborators on which the model is run in the
  theorems about single inputs.
\<close>

text \<open>Sample operations: an upstream that is rate limited twice, and one that always fails.\<close>

definition rateLimited :: js_error where
  "rateLimited = \<lparr>isRateLimitInstance = False, message = Some ''429 Too Many Requests''\<rparr>"

definition invalidKey :: js_error where
  "invalidKey = \<lparr>isRateLimitInstance = False, message = Some ''Incorrect API key provided''\<rparr>"

definition flaky_operation :: "nat \<Rightarrow> js_error + string" where
  "flaky_operation i = (if i < 2 then Inl rateLimited else Inr ''https://img.example/logo.png'')"

definition failing_operation :: "nat \<Rightarrow> js_error + string" where
  "failing_operation i = Inl invalidKey"

text \<open>
  A stand-in with the shape of a hex-encoded 256-bit digest (64 hex digits), used to run
  \<open>createPromptHash\<close> on sample inputs: the low bit of each input character, padded.
\<close>

definition sample_digest :: "string \<Rightarrow> string" where
  "sample_digest x =
     take 64 (map (\<lambda>c. if even (of_char c :: nat) then CHR ''0'' else CHR ''1'') x @
              replicate 64 CHR ''0'')"

text \<open>A sample result and a fresh cache manager with the default settings, for running the model.\<close>

definition sample_result :: LogoResult where
  "sample_result =
     \<lparr>res_url = ''https://img.example/logo.png'', res_revisedPrompt = None,
      res_metadata =
        \<lparr>meta_id = ''logo_1'', meta_timestamp = 1000, meta_company = ''Acme'',
         meta_originalPrompt = ''bold new idea'', meta_finalPrompt = ''bold new idea'',
         meta_style = ''modern'', meta_industry = None, meta_size = ''1024x1024'',
         meta_quality = ''standard'', meta_cost = 0.07\<rparr>,
      res_localPath = None\<rparr>"

definition fresh_cache :: CacheManager where
  "fresh_cache = new_CacheManager None 3600 500"

text \<open>
  A sample directory over a 100-byte limit: one expired entry and two live ones, the
  live ones together above 80 bytes.
\<close>

definition cached_until :: "real \<Rightarrow> CachedLogo" where
  "cached_until t = \<lparr>payload = sample_result, expiresAt = t, hit = False\<rparr>"

definition file_expired :: cache_file where
  "file_expired = \<lparr>fname = ''aaaa'', parsed = Some (cached_until 10), fsize = 50, mtime = Some 1\<rparr>"

definition file_old :: cache_file where
  "file_old = \<lparr>fname = ''bbbb'', parsed = Some (cached_until 1000), fsize = 45, mtime = Some 2\<rparr>"

definition file_new :: cache_file where
  "file_new = \<lparr>fname = ''cccc'', parsed = Some (cached_until 1000), fsize = 45, mtime = Some 3\<rparr>"

definition crowded_cache :: CacheManager where
  "crowded_cache =
     \<lparr>memoryCache = Map.empty, cacheDir = Some [file_new, file_expired, file_old], ttl = 3600000,
      maxSize = 100\<rparr>"

text \<open>
  A cache with a TTL of one second whose directory holds, for the key used below, a file
  written with a TTL of one day.
\<close>

definition older_result :: LogoResult where
  "older_result = sample_result\<lparr>res_url := ''https://img.example/older.png''\<rparr>"

definition file_long_lived :: cache_file where
  "file_long_lived =
     \<lparr>fname = ''0123456789abcdef'',
      parsed = Some \<lparr>payload = older_result, expiresAt = 86400000, hit = False\<rparr>,
      fsize = 420, mtime = Some 0\<rparr>"

definition stale_cache :: CacheManager where
  "stale_cache =
     \<lparr>memoryCache = Map.empty, cacheDir = Some [file_long_lived], ttl = 1000,
      maxSize = 524288000\<rparr>"

text \<open>The request of the end-to-end scenario, and a client that always answers.\<close>

definition acme_request :: LogoRequest where
  "acme_request =
     \<lparr>req_company = ''Acme'', req_prompt = ''bold new idea'', req_style = None,
      req_industry = None, req_colors = None, req_size = None, req_quality = None\<rparr>"

definition working_client :: "nat \<Rightarrow> APIParams \<Rightarrow> js_error + api_response" where
  "working_client i params =
     Inr \<lparr>resp_data = Some [\<lparr>img_url = Some ''https://img.example/logo.png'',
                               img_revised_prompt = None\<rparr>]\<rparr>"

definition sample_ids :: "nat \<Rightarrow> string \<times> real" where
  "sample_ids i = (''logo_1'', 1000)"

definition half_jitter :: "nat \<Rightarrow> real" where
  "half_jitter i = 1 / 2"

definition tech_options :: GenerationOptions where
  "tech_options =
     no_options\<lparr>opt_style := Some ''bold'', opt_industry := Some ''technology'',
                opt_colors := Some [''red'', ''blue'']\<rparr>"

definition unknown_template_options :: GenerationOptions where
  "unknown_template_options = no_options\<lparr>opt_template := Some ''minimal-hexagon''\<rparr>"

definition geometric_options :: GenerationOptions where
  "geometric_options = no_options\<lparr>opt_template := Some ''minimal-geometric''\<rparr>"

text \<open>
  A sample file. It starts with a byte-order mark; its third line has no prompt; the
  colours of its last line are padded with blanks.
\<close>

definition sample_csv :: string where
  "sample_csv =
     [CHR 0xEF, CHR 0xBB, CHR 0xBF] @ ''company,prompt,style,colors,quality'' @ [CHR 0x0A] @
     ''TechCorp,modern software logo,modern,'' @ [CHR 0x22] @ ''blue;gray'' @ [CHR 0x22] @
       '',standard'' @ [CHR 0x0A] @
     ''NoPrompt,,minimal,green,hd'' @ [CHR 0x0A] @
     ''Acme, bold new idea ,bold,'' @ [CHR 0x22] @ ''red;blue'' @ [CHR 0x22] @ '',standard'' @
       [CHR 0x0A] @
     ''Globex,round mark,bold, teal ;  navy,hd'' @ [CHR 0x0A]"

definition sample_headers :: "string list" where
  "sample_headers = [''company'', ''prompt'', ''style'', ''colors'', ''quality'']"

definition techcorp_row :: LogoRequest where
  "techcorp_row =
     \<lparr>req_company = ''TechCorp'', req_prompt = ''modern software logo'',
      req_style = Some ''modern'', req_industry = None,
      req_colors = Some [''blue'', ''gray''], req_size = None,
      req_quality = Some ''standard''\<rparr>"

definition acme_line :: string where
  "acme_line = ''Acme, bold new idea ,bold,'' @ [CHR 0x22] @ ''red;blue'' @ [CHR 0x22] @ '',standard''"

definition acme_row :: LogoRequest where
  "acme_row =
     \<lparr>req_company = ''Acme'', req_prompt = ''bold new idea'', req_style = Some ''bold'',
      req_industry = None, req_colors = Some [''red'', ''blue''], req_size = None,
      req_quality = Some ''standard''\<rparr>"

definition globex_row :: LogoRequest where
  "globex_row =
     \<lparr>req_company = ''Globex'', req_prompt = ''round mark'', req_style = Some ''bold'',
      req_industry = None, req_colors = Some [''teal'', ''navy''], req_size = None,
      req_quality = Some ''hd''\<rparr>"







text \<open>What \<open>generate\<close> returns for the sample request with \<open>tech_options\<close>.\<close>

definition tech_logo :: LogoResult where
  "tech_logo =
     \<lparr>res_url = ''https://img.example/logo.png'', res_revisedPrompt = None,
      res_metadata =
        \<lparr>meta_id = ''logo_1'', meta_timestamp = 1000, meta_company = ''Acme'',
         meta_originalPrompt = ''bold new idea'',
         meta_finalPrompt =
           ''bold minimalist tech logo with geometric elements for Acme: bold new idea, strong visual impact, dramatic elements, confident, using red and blue colors, clean geometric shapes, scalable vector design, professional quality, suitable for branding, on white background, high contrast, memorable and distinctive'',
         meta_style = ''bold'', meta_industry = Some ''technology'', meta_size = ''1024x1024'',
         meta_quality = ''standard'', meta_cost = 0.07\<rparr>,
      res_localPath = None\<rparr>"


section \<open>Properties of the retry strategy\<close>


lemma rateLimited_classified: "isRateLimitError rateLimited"
  by (simp add: rateLimited_def isRateLimitError_def errorMessage_def toLowerCase_def toLowerChar_def)

lemma invalidKey_classified: "\<not> isRateLimitError invalidKey" "\<not> isRetryableError invalidKey"
  by (simp_all add: invalidKey_def isRateLimitError_def isRetryableError_def errorMessage_def toLowerCase_def toLowerChar_def)

lemma execute_loop_success:
  "attempt \<le> maxRetries \<Longrightarrow> operation (invocations tr) = Inr v \<Longrightarrow>
   execute_loop operation random maxRetries attempt lastError tr =
     (Inr v, tr\<lparr>invocations := Suc (invocations tr)\<rparr>)"
  by (subst execute_loop.simps) simp

lemma execute_loop_rate_limited:
  "attempt \<le> maxRetries \<Longrightarrow> operation (invocations tr) = Inl e \<Longrightarrow> isRateLimitError e \<Longrightarrow>
   execute_loop operation random maxRetries attempt lastError tr =
     execute_loop operation random maxRetries (Suc attempt) (Some e)
       (backoff random attempt (tr\<lparr>invocations := Suc (invocations tr)\<rparr>))"
  by (subst execute_loop.simps) simp

lemma execute_loop_fatal:
  "attempt \<le> maxRetries \<Longrightarrow> operation (invocations tr) = Inl e \<Longrightarrow>
   \<not> isRateLimitError e \<Longrightarrow> \<not> isRetryableError e \<Longrightarrow>
   execute_loop operation random maxRetries attempt lastError tr =
     (Inl (Some e), tr\<lparr>invocations := Suc (invocations tr)\<rparr>)"
  by (subst execute_loop.simps) simp

lemma execute_two_rate_limits:
  assumes a: "operation 0 = Inl e1" "isRateLimitError e1" "operation 1 = Inl e2"
    "isRateLimitError e2" "operation 2 = Inr v"
  shows "execute operation random 3 =
    (Inr v, \<lparr>invocations = 3, draws = 2,
       sleeps = [calculateBackoffDelay 1 (random 0), calculateBackoffDelay 2 (random 1)]\<rparr>)"
proof -
  define t0 where "t0 = trace0\<lparr>invocations := Suc (invocations trace0)\<rparr>"
  define t1 where "t1 = backoff random (Suc 0) t0"
  define t1' where "t1' = t1\<lparr>invocations := Suc (invocations t1)\<rparr>"
  define t2 where "t2 = backoff random (Suc (Suc 0)) t1'"
  have i0: "invocations trace0 = 0" by (simp add: trace0_def)
  have i1: "invocations t1 = Suc 0" by (simp add: t1_def t0_def backoff_def trace0_def)
  have i2: "invocations t2 = Suc (Suc 0)"
    by (simp add: t2_def t1'_def t1_def t0_def backoff_def trace0_def)
  have o0: "operation (invocations trace0) = Inl e1" using a i0 by simp
  have o1: "operation (invocations t1) = Inl e2" using a i1 by simp
  have o2: "operation (invocations t2) = Inr v" using a i2 by (simp add: numeral_2_eq_2)
  have "execute operation random 3 = execute_loop operation random 3 (Suc 0) None trace0"
    by (simp add: execute_def)
  also have "\<dots> = execute_loop operation random 3 (Suc (Suc 0)) (Some e1) t1"
    unfolding t1_def t0_def using o0 a by (intro execute_loop_rate_limited) simp_all
  also have "\<dots> = execute_loop operation random 3 (Suc (Suc (Suc 0))) (Some e2) t2"
    unfolding t2_def t1'_def using o1 a by (intro execute_loop_rate_limited) simp_all
  also have "\<dots> = (Inr v, t2\<lparr>invocations := Suc (invocations t2)\<rparr>)"
    using o2 by (intro execute_loop_success) simp_all
  also have "t2\<lparr>invocations := Suc (invocations t2)\<rparr> =
      \<lparr>invocations = 3, draws = 2,
       sleeps = [calculateBackoffDelay 1 (random 0), calculateBackoffDelay 2 (random 1)]\<rparr>"
    by (simp add: t2_def t1'_def t1_def t0_def backoff_def trace0_def numeral_2_eq_2)
  finally show ?thesis .
qed

lemma execute_fatal_first:
  assumes "operation 0 = Inl e" "\<not> isRateLimitError e" "\<not> isRetryableError e"
  shows "execute operation random 3 = (Inl (Some e), \<lparr>invocations = 1, draws = 0, sleeps = []\<rparr>)"
proof -
  have "execute operation random 3 = execute_loop operation random 3 (Suc 0) None trace0"
    by (simp add: execute_def)
  also have "\<dots> = (Inl (Some e), trace0\<lparr>invocations := Suc (invocations trace0)\<rparr>)"
    using assms by (intro execute_loop_fatal) (simp_all add: trace0_def)
  finally show ?thesis by (simp add: trace0_def)
qed

text \<open>
  Claim C5. An operation that fails twice with an error classified as a rate limit and then
  succeeds makes \<open>execute(op, 3)\<close> return the success value after exactly three
  invocations. An operation that always fails with an error that is neither a rate limit
  nor retryable makes \<open>execute(op, 3)\<close> throw that same error value after exactly one
  invocation, with no sleep.
\<close>

theorem execute_retries_rate_limit_not_fatal:
  "(operation 0 = Inl e1 \<and> isRateLimitError e1 \<and> operation 1 = Inl e2 \<and> isRateLimitError e2 \<and>
    operation 2 = Inr v \<longrightarrow>
      fst (execute operation random 3) = Inr v \<and>
      invocations (snd (execute operation random 3)) = 3) \<and>
   ((\<forall>i. always i = Inl e) \<and> \<not> isRateLimitError e \<and> \<not> isRetryableError e \<longrightarrow>
      fst (execute always random 3) = Inl (Some e) \<and>
      invocations (snd (execute always random 3)) = 1 \<and>
      sleeps (snd (execute always random 3)) = [])"
proof (intro conjI impI)
  assume "operation 0 = Inl e1 \<and> isRateLimitError e1 \<and> operation 1 = Inl e2 \<and>
    isRateLimitError e2 \<and> operation 2 = Inr v"
  then have r: "execute operation random 3 =
    (Inr v, \<lparr>invocations = 3, draws = 2,
       sleeps = [calculateBackoffDelay 1 (random 0), calculateBackoffDelay 2 (random 1)]\<rparr>)"
    by (intro execute_two_rate_limits [where ?e1.0 = e1 and ?e2.0 = e2]) simp_all
  from r show "fst (execute operation random 3) = Inr v" by simp
  from r show "invocations (snd (execute operation random 3)) = 3" by simp
next
  assume "(\<forall>i. always i = Inl e) \<and> \<not> isRateLimitError e \<and> \<not> isRetryableError e"
  then have r: "execute always random 3 = (Inl (Some e), \<lparr>invocations = 1, draws = 0, sleeps = []\<rparr>)"
    by (intro execute_fatal_first) simp_all
  from r show "fst (execute always random 3) = Inl (Some e)" by simp
  from r show "invocations (snd (execute always random 3)) = 1" by simp
  from r show "sleeps (snd (execute always random 3)) = []" by simp
qed

theorem execute_retries_rate_limit_not_fatal_witness:
  "(flaky_operation 0 = Inl rateLimited \<and> isRateLimitError rateLimited \<and>
    flaky_operation 1 = Inl rateLimited \<and> flaky_operation 2 = Inr ''https://img.example/logo.png'') \<and>
   ((\<forall>i. failing_operation i = Inl invalidKey) \<and> \<not> isRateLimitError invalidKey \<and>
    \<not> isRetryableError invalidKey) \<and>
   fst (execute flaky_operation (\<lambda>i. 1 / 2) 3) = Inr ''https://img.example/logo.png'' \<and>
   invocations (snd (execute flaky_operation (\<lambda>i. 1 / 2) 3)) = 3 \<and>
   fst (execute failing_operation (\<lambda>i. 1 / 2) 3) = Inl (Some invalidKey) \<and>
   invocations (snd (execute failing_operation (\<lambda>i. 1 / 2) 3)) = 1"
proof -
  have h1: "flaky_operation 0 = Inl rateLimited \<and> isRateLimitError rateLimited \<and>
      flaky_operation 1 = Inl rateLimited \<and> isRateLimitError rateLimited \<and>
      flaky_operation 2 = Inr ''https://img.example/logo.png''"
    using rateLimited_classified by (simp add: flaky_operation_def)
  have h2: "(\<forall>i. failing_operation i = Inl invalidKey) \<and> \<not> isRateLimitError invalidKey \<and>
      \<not> isRetryableError invalidKey"
    using invalidKey_classified by (simp add: failing_operation_def)
  from h1 h2 execute_retries_rate_limit_not_fatal
    [of flaky_operation rateLimited rateLimited "''https://img.example/logo.png''" "\<lambda>i. 1 / 2"
        failing_operation invalidKey]
  show ?thesis by blast
qed

lemma trace_ok_invocations [simp]: "trace_ok random (tr\<lparr>invocations := n\<rparr>) = trace_ok random tr"
  by (simp add: trace_ok_def)







section \<open>Properties of the cache key\<close>

lemma sample_digest_shape:
  "length (sample_digest x) = 64 \<and> set (sample_digest x) \<subseteq> hexdigits"
proof
  show "length (sample_digest x) = 64" by (simp add: sample_digest_def)
  have "set (sample_digest x) \<subseteq>
      set (map (\<lambda>c. if even (of_char c :: nat) then CHR ''0'' else CHR ''1'') x @ replicate 64 CHR ''0'')"
    unfolding sample_digest_def by (rule set_take_subset)
  also have "\<dots> \<subseteq> hexdigits" by (auto simp: hexdigits_def)
  finally show "set (sample_digest x) \<subseteq> hexdigits" .
qed

lemma sort_red_blue: "sort [''red'', ''blue''] = [''blue'', ''red'']"
  by code_simp

text \<open>
  Claim C3. The cache key depends only on company, prompt, style and colours, and two colour
  lists that are permutations of each other give the same key. The key is the first 16
  characters of the digest of \<open>company:prompt:style-or-default:sorted,colours\<close>, the
  colours being sorted ascending and joined by commas (nothing when there are none); with a
  digest of 64 hex digits it is 16 hex digits long.
\<close>

theorem createPromptHash_order_independent:
  "(mset colors1 = mset colors2 \<longrightarrow>
      createPromptHash sha256_hex company prompt style (Some colors1) =
      createPromptHash sha256_hex company prompt style (Some colors2)) \<and>
   createPromptHash sha256_hex company prompt style colors =
     take 16 (sha256_hex (company @ '':'' @ prompt @ '':'' @
       (case style of None \<Rightarrow> ''default'' | Some s \<Rightarrow> if s = [] then ''default'' else s) @ '':'' @
       (case colors of None \<Rightarrow> [] | Some cs \<Rightarrow> join '','' (sort cs)))) \<and>
   (case colors of None \<Rightarrow> True | Some cs \<Rightarrow> sorted (sort cs) \<and> mset (sort cs) = mset cs) \<and>
   ((\<forall>x. length (sha256_hex x) = 64 \<and> set (sha256_hex x) \<subseteq> hexdigits) \<longrightarrow>
      length (createPromptHash sha256_hex company prompt style colors) = 16 \<and>
      set (createPromptHash sha256_hex company prompt style colors) \<subseteq> hexdigits)"
proof (intro conjI impI)
  assume "mset colors1 = mset colors2"
  then have "sort colors1 = sort colors2"
    by (metis properties_for_sort sorted_sort mset_sort)
  then show "createPromptHash sha256_hex company prompt style (Some colors1) =
      createPromptHash sha256_hex company prompt style (Some colors2)"
    by (simp add: createPromptHash_def)
next
  show "createPromptHash sha256_hex company prompt style colors =
     take 16 (sha256_hex (company @ '':'' @ prompt @ '':'' @
       (case style of None \<Rightarrow> ''default'' | Some s \<Rightarrow> if s = [] then ''default'' else s) @ '':'' @
       (case colors of None \<Rightarrow> [] | Some cs \<Rightarrow> join '','' (sort cs))))"
    by (cases style; cases colors) (simp_all add: createPromptHash_def)
next
  show "case colors of None \<Rightarrow> True | Some cs \<Rightarrow> sorted (sort cs) \<and> mset (sort cs) = mset cs"
    by (cases colors) simp_all
next
  assume h: "\<forall>x. length (sha256_hex x) = 64 \<and> set (sha256_hex x) \<subseteq> hexdigits"
  then show "length (createPromptHash sha256_hex company prompt style colors) = 16"
    by (simp add: createPromptHash_def Let_def)
  from h show "set (createPromptHash sha256_hex company prompt style colors) \<subseteq> hexdigits"
    unfolding createPromptHash_def Let_def using set_take_subset by fastforce
qed

theorem createPromptHash_order_independent_witness:
  "mset [''red'', ''blue''] = mset [''blue'', ''red''] \<and>
   (\<forall>x. length (sample_digest x) = 64 \<and> set (sample_digest x) \<subseteq> hexdigits) \<and>
   createPromptHash sample_digest ''A'' ''p'' None (Some [''red'', ''blue'']) =
   createPromptHash sample_digest ''A'' ''p'' None (Some [''blue'', ''red'']) \<and>
   createPromptHash sample_digest ''A'' ''p'' None (Some [''red'', ''blue'']) =
     take 16 (sample_digest ''A:p:default:blue,red'') \<and>
   length (createPromptHash sample_digest ''A'' ''p'' None (Some [''red'', ''blue''])) = 16"
proof -
  have m: "mset [''red'', ''blue''] = mset [''blue'', ''red'']" by simp
  have h: "\<forall>x. length (sample_digest x) = 64 \<and> set (sample_digest x) \<subseteq> hexdigits"
    using sample_digest_shape by blast
  note c = createPromptHash_order_independent
    [of "[''red'', ''blue'']" "[''blue'', ''red'']" sample_digest "''A''" "''p''" None
        "Some [''red'', ''blue'']"]
  from c m have e1: "createPromptHash sample_digest ''A'' ''p'' None (Some [''red'', ''blue'']) =
      createPromptHash sample_digest ''A'' ''p'' None (Some [''blue'', ''red''])"
    by blast
  from c [THEN conjunct2, THEN conjunct1]
  have e2: "createPromptHash sample_digest ''A'' ''p'' None (Some [''red'', ''blue'']) =
      take 16 (sample_digest ''A:p:default:blue,red'')"
    by (simp add: sort_red_blue)
  from c h have e3: "length (createPromptHash sample_digest ''A'' ''p'' None (Some [''red'', ''blue''])) = 16"
    by blast
  from m h e1 e2 e3 show ?thesis by blast
qed

section \<open>Properties of the cache store\<close>

lemma set_remove_file: "set (remove_file name dir) \<subseteq> set dir"
  by (auto simp: remove_file_def)

lemma set_fold_remove_file: "set (fold remove_file names dir) \<subseteq> set dir"
proof (induction names arbitrary: dir)
  case Nil
  show ?case by simp
next
  case (Cons n ns)
  have "set (fold remove_file ns (remove_file n dir)) \<subseteq> set (remove_file n dir)"
    by (rule Cons.IH)
  with set_remove_file [of n dir] show ?case by auto
qed

lemma set_evict: "set (evict files currentSize maxSz dir) \<subseteq> set dir"
proof (induction files arbitrary: currentSize dir)
  case Nil
  show ?case by simp
next
  case (Cons f fs)
  have "set (evict fs (currentSize - real (fsize f)) maxSz (remove_file (fname f) dir))
      \<subseteq> set (remove_file (fname f) dir)"
    by (rule Cons.IH)
  with set_remove_file [of "fname f" dir] show ?case by auto
qed

lemma set_cleanupBySize: "set (cleanupBySize dir maxSz) \<subseteq> set dir"
  unfolding cleanupBySize_def Let_def by (rule set_evict)

text \<open>A cleanup pass, completed or abandoned, only removes files.\<close>

lemma set_cleanup:
  "set (files_of (cacheDir (cleanup cm now pass))) \<subseteq> set (files_of (cacheDir cm))"
proof (cases "cacheDir cm")
  case None
  then show ?thesis by (simp add: cleanup_def)
next
  case (Some files)
  let ?d1 = "fold remove_file (map fname (filter (marked_for_deletion now) files)) files"
  have 1: "set ?d1 \<subseteq> set files" by (rule set_fold_remove_file)
  have 2: "set (cleanupBySize ?d1 (maxSize cm)) \<subseteq> set ?d1" by (rule set_cleanupBySize)
  show ?thesis
  proof (cases pass)
    case Completes
    with Some 1 2 show ?thesis by (auto simp: cleanup_def Let_def files_of_def)
  next
    case (Abandoned k)
    with Some show ?thesis
      by (simp add: cleanup_def Let_def files_of_def set_fold_remove_file
          del: take_append fold_append)
  qed
qed

text \<open>It sweeps the memory map or leaves it as it was.\<close>

lemma memory_cleanup:
  "memoryCache (cleanup cm now pass) key = memoryCache cm key \<or>
   memoryCache (cleanup cm now pass) key =
     (case memoryCache cm key of None \<Rightarrow> None
      | Some cached \<Rightarrow> if isExpired now cached then None else Some cached)"
  by (simp add: cleanup_def Let_def split: option.splits pass_io.splits)

lemma getFromFile_marked:
  assumes "\<forall>f\<in>set (files_of dir). fname f = key \<longrightarrow> marked_for_deletion now f"
    and "getFromFile dir key = Some cached"
  shows "isExpired now cached"
proof -
  from assms(2) obtain f where f: "find (\<lambda>f. fname f = key) (files_of dir) = Some f"
      "parsed f = Some cached"
    by (auto simp: getFromFile_def split: option.splits)
  from f(1) have "f \<in> set (files_of dir)" "fname f = key"
    by (auto simp: find_Some_iff)
  with assms(1) have "marked_for_deletion now f" by blast
  with f(2) show ?thesis by (simp add: marked_for_deletion_def)
qed

lemma get_miss:
  assumes "case memoryCache cm key of None \<Rightarrow> True | Some cached \<Rightarrow> isExpired now cached"
    and "\<forall>f\<in>set (files_of (cacheDir cm)). fname f = key \<longrightarrow> marked_for_deletion now f"
  shows "fst (get cm key now) = None"
proof (cases "getFromFile (cacheDir cm) key")
  case None
  with assms(1) show ?thesis by (auto simp: get_def split: option.splits)
next
  case (Some cached)
  with assms(2) have "isExpired now cached" by (rule getFromFile_marked)
  with Some assms(1) show ?thesis by (auto simp: get_def split: option.splits)
qed

lemma get_memory_hit:
  assumes "memoryCache cm key = Some cached" "\<not> isExpired now cached"
  shows "fst (get cm key now) = Some (cached\<lparr>hit := True\<rparr>)"
  using assms by (simp add: get_def)

lemma get_never_expired:
  assumes "fst (get cm key now) = Some e"
  shows "\<not> now > expiresAt e \<and> hit e"
  using assms by (auto simp: get_def isExpired_def split: option.splits if_splits)

lemma saveToFile_marked:
  assumes "(io \<noteq> EnsureDirFailed \<and> io \<noteq> WriteRefused) \<or>
      (\<forall>f\<in>set (files_of dir). fname f = key \<longrightarrow> marked_for_deletion now f)"
    and "isExpired now cached"
  shows "\<forall>f\<in>set (files_of (saveToFile dir key cached io)).
      fname f = key \<longrightarrow> marked_for_deletion now f"
proof (cases io)
  case EnsureDirFailed
  with assms(1) show ?thesis by simp
next
  case WriteRefused
  with assms(1) show ?thesis by (simp add: files_of_def)
next
  case (WriteCutShort sz mt)
  then show ?thesis by (auto simp: files_of_def remove_file_def marked_for_deletion_def)
next
  case (Saved sz mt)
  with assms(2) show ?thesis by (auto simp: files_of_def remove_file_def marked_for_deletion_def)
qed

text \<open>
  Claim C2 as stated fails when the write of \<open>set\<close> does not reach the disk. The directory
  of the sample \<open>stale_cache\<close> holds a file for the key that expires at 86400000. A \<open>set\<close>
  at time 0 with a TTL of 1000 whose write is refused (the source logs a warning and goes
  on) leaves that file in place. At time 5000 the entry just set has expired
  (5000 > 0 + 1000) and the memory layer passes it over, but \<open>get\<close> does not return absent:
  it answers with the entry of the file, whose payload is not the one that was set.
\<close>

theorem get_after_expiry_counterexample:
  "5000 > 0 + ttl stale_cache \<and>
   fst (get (set_cached stale_cache ''0123456789abcdef'' sample_result 0 WriteRefused 0.5 0 Completes)
          ''0123456789abcdef'' 5000) =
     Some \<lparr>payload = older_result, expiresAt = 86400000, hit = True\<rparr> \<and>
   older_result \<noteq> sample_result"
  by (simp add: set_cached_def Let_def get_def getFromFile_def files_of_def isExpired_def
      stale_cache_def file_long_lived_def older_result_def sample_result_def)

text \<open>
  Claim C2. After \<open>set(k, v)\<close> at time \<open>t0\<close>, a \<open>get(k)\<close> at a time \<open>t1\<close> that is not
  beyond the expiry \<open>t0 + ttl\<close> returns the entry with payload \<open>v\<close>, that expiry and the
  hit flag set (the cleanup pass that \<open>set\<close> may have started does not run on a later clock
  than the \<open>get\<close>). A \<open>get(k)\<close> at a time \<open>t2\<close> after the expiry returns nothing, when the
  write of \<open>set\<close> replaced the file of \<open>k\<close> or the directory held no file for \<open>k\<close> that
  parses and is unexpired at \<open>t2\<close>. And whatever the state, an entry that \<open>get\<close> returns
  has \<open>now \<le> expiresAt\<close> and the hit flag set, whether it came from the memory map or from
  a file.
\<close>

theorem get_after_set_cached:
  "((rnd < 0.1 \<longrightarrow> cleanupNow \<le> t1) \<and> t1 \<le> t0 + ttl cm \<longrightarrow>
      fst (get (set_cached cm key result t0 io rnd cleanupNow pass) key t1) =
        Some \<lparr>payload = result, expiresAt = t0 + ttl cm, hit = True\<rparr>) \<and>
   (t2 > t0 + ttl cm \<and>
    ((io \<noteq> EnsureDirFailed \<and> io \<noteq> WriteRefused) \<or>
     (\<forall>f\<in>set (files_of (cacheDir cm)). fname f = key \<longrightarrow> marked_for_deletion t2 f)) \<longrightarrow>
      fst (get (set_cached cm key result t0 io rnd cleanupNow pass) key t2) = None) \<and>
   (fst (get cm' key' now) = Some e \<longrightarrow> \<not> now > expiresAt e \<and> hit e)"
proof (intro conjI impI)
  let ?cached = "\<lparr>payload = result, expiresAt = t0 + ttl cm, hit = False\<rparr>"
  let ?cm2 = "cm\<lparr>memoryCache := (memoryCache cm)(key \<mapsto> ?cached),
                 cacheDir := saveToFile (cacheDir cm) key ?cached io\<rparr>"
  let ?cm' = "set_cached cm key result t0 io rnd cleanupNow pass"
  have cm': "?cm' = (if rnd < 0.1 then cleanup ?cm2 cleanupNow pass else ?cm2)"
    by (simp add: set_cached_def Let_def)
  have m2: "memoryCache ?cm2 key = Some ?cached" by simp
  {
    assume a: "(rnd < 0.1 \<longrightarrow> cleanupNow \<le> t1) \<and> t1 \<le> t0 + ttl cm"
    then have ne: "\<not> isExpired t1 ?cached" by (simp add: isExpired_def)
    from a have "rnd < 0.1 \<Longrightarrow> \<not> isExpired cleanupNow ?cached" by (simp add: isExpired_def)
    with memory_cleanup [of ?cm2 cleanupNow pass key]
    have "rnd < 0.1 \<Longrightarrow> memoryCache (cleanup ?cm2 cleanupNow pass) key = Some ?cached"
      unfolding m2 by auto
    then have "memoryCache ?cm' key = Some ?cached"
      unfolding cm' by simp
    from get_memory_hit [OF this ne]
    show "fst (get ?cm' key t1) = Some \<lparr>payload = result, expiresAt = t0 + ttl cm, hit = True\<rparr>"
      by simp
  }
  {
    assume b: "t2 > t0 + ttl cm \<and>
      ((io \<noteq> EnsureDirFailed \<and> io \<noteq> WriteRefused) \<or>
       (\<forall>f\<in>set (files_of (cacheDir cm)). fname f = key \<longrightarrow> marked_for_deletion t2 f))"
    then have ex: "isExpired t2 ?cached" by (simp add: isExpired_def)
    from memory_cleanup [of ?cm2 cleanupNow pass key] ex
    have "case memoryCache (cleanup ?cm2 cleanupNow pass) key of
        None \<Rightarrow> True | Some c \<Rightarrow> isExpired t2 c"
      unfolding m2 by (auto split: if_splits)
    with ex have mem: "case memoryCache ?cm' key of None \<Rightarrow> True | Some c \<Rightarrow> isExpired t2 c"
      unfolding cm' by simp
    from b ex have "\<forall>f\<in>set (files_of (saveToFile (cacheDir cm) key ?cached io)).
        fname f = key \<longrightarrow> marked_for_deletion t2 f"
      by (intro saveToFile_marked) blast+
    then have d2: "\<forall>f\<in>set (files_of (cacheDir ?cm2)). fname f = key \<longrightarrow> marked_for_deletion t2 f"
      by simp
    have "set (files_of (cacheDir ?cm')) \<subseteq> set (files_of (cacheDir ?cm2))"
      unfolding cm' using set_cleanup [of ?cm2 cleanupNow pass] by simp
    with d2 have "\<forall>f\<in>set (files_of (cacheDir ?cm')). fname f = key \<longrightarrow> marked_for_deletion t2 f"
      by blast
    with mem show "fst (get ?cm' key t2) = None" by (rule get_miss)
  }
  {
    assume "fst (get cm' key' now) = Some e"
    then show "\<not> now > expiresAt e" and "hit e" using get_never_expired by blast+
  }
qed

theorem get_after_set_cached_witness:
  "((0.05::real) < 0.1 \<and> (1001::real) \<le> 2000 \<and> 2000 \<le> 1000 + ttl fresh_cache) \<and>
   fst (get (set_cached fresh_cache ''0123456789abcdef'' sample_result 1000 (Saved 420 (Some 1000))
               0.05 1001 Completes)
          ''0123456789abcdef'' 2000) =
     Some \<lparr>payload = sample_result, expiresAt = 3601000, hit = True\<rparr> \<and>
   (3700000 > 1000 + ttl fresh_cache \<and> Saved 420 (Some 1000) \<noteq> EnsureDirFailed \<and>
    Saved 420 (Some 1000) \<noteq> WriteRefused) \<and>
   fst (get (set_cached fresh_cache ''0123456789abcdef'' sample_result 1000 (Saved 420 (Some 1000))
               0.05 1001 Completes)
          ''0123456789abcdef'' 3700000) = None"
proof -
  have t: "ttl fresh_cache = 3600000" by (simp add: fresh_cache_def new_CacheManager_def)
  have h1: "((0.05::real) < 0.1 \<longrightarrow> (1001::real) \<le> 2000) \<and> 2000 \<le> 1000 + ttl fresh_cache"
    by (simp add: t)
  have h2: "3700000 > 1000 + ttl fresh_cache \<and> Saved 420 (Some 1000) \<noteq> EnsureDirFailed \<and>
      Saved 420 (Some 1000) \<noteq> WriteRefused"
    by (simp add: t)
  note c = get_after_set_cached
    [of "0.05" 1001 2000 1000 fresh_cache "''0123456789abcdef''" sample_result
        "Saved 420 (Some 1000)" Completes 3700000]
  from c h1 have r1: "fst (get (set_cached fresh_cache ''0123456789abcdef'' sample_result 1000
        (Saved 420 (Some 1000)) 0.05 1001 Completes) ''0123456789abcdef'' 2000) =
      Some \<lparr>payload = sample_result, expiresAt = 1000 + ttl fresh_cache, hit = True\<rparr>"
    by blast
  from c h2 have r2: "fst (get (set_cached fresh_cache ''0123456789abcdef'' sample_result 1000
        (Saved 420 (Some 1000)) 0.05 1001 Completes) ''0123456789abcdef'' 3700000) = None"
    by blast
  from h2 r1 r2 show ?thesis by (simp add: t)
qed

lemma fold_remove_file:
  "fold remove_file names dir = filter (\<lambda>f. fname f \<notin> set names) dir"
  by (induction names arbitrary: dir) (auto simp: remove_file_def intro: filter_cong)

lemma remove_marked:
  assumes "distinct (map fname dir)"
  shows "fold remove_file (map fname (filter P dir)) dir = filter (\<lambda>f. \<not> P f) dir"
proof -
  from assms have inj: "inj_on fname (set dir)" by (simp add: distinct_map)
  have "filter (\<lambda>f. fname f \<notin> set (map fname (filter P dir))) dir = filter (\<lambda>f. \<not> P f) dir"
  proof (rule filter_cong [OF refl])
    fix f assume f: "f \<in> set dir"
    show "(fname f \<notin> set (map fname (filter P dir))) = (\<not> P f)"
    proof
      assume "fname f \<notin> set (map fname (filter P dir))"
      with f show "\<not> P f" by auto
    next
      assume np: "\<not> P f"
      show "fname f \<notin> set (map fname (filter P dir))"
      proof
        assume "fname f \<in> set (map fname (filter P dir))"
        then obtain g where g: "g \<in> set dir" "P g" "fname g = fname f" by auto
        with inj f have "g = f" by (auto dest: inj_onD)
        with g np show False by simp
      qed
    qed
  qed
  then show ?thesis by (simp add: fold_remove_file)
qed

lemma evict_eq:
  "evict files currentSize maxSz dir =
     fold remove_file (map fname (take (evict_count files currentSize maxSz) files)) dir"
  by (induction files arbitrary: currentSize dir) simp_all

lemma total_size_Cons: "total_size (f # fs) = fsize f + total_size fs"
  by (simp add: total_size_def)

lemma evict_count_props:
  assumes "0 \<le> maxSz"
  shows "evict_count files (real (total_size files)) maxSz \<le> length files \<and>
     real (total_size (drop (evict_count files (real (total_size files)) maxSz) files)) \<le> maxSz * 0.8 \<and>
     (\<forall>m < evict_count files (real (total_size files)) maxSz.
        real (total_size (drop m files)) > maxSz * 0.8)"
proof (induction files)
  case Nil
  from assms show ?case by (simp add: total_size_def)
next
  case (Cons f fs)
  have sub: "real (total_size (f # fs)) - real (fsize f) = real (total_size fs)"
    by (simp add: total_size_Cons)
  show ?case
  proof (cases "real (total_size (f # fs)) \<le> maxSz * 0.8")
    case True
    then show ?thesis by simp
  next
    case False
    then have n: "evict_count (f # fs) (real (total_size (f # fs))) maxSz =
        Suc (evict_count fs (real (total_size fs)) maxSz)"
      by (simp only: evict_count.simps sub if_False)
    have "\<forall>m < Suc (evict_count fs (real (total_size fs)) maxSz).
        real (total_size (drop m (f # fs))) > maxSz * 0.8"
    proof (intro allI impI)
      fix m assume m: "m < Suc (evict_count fs (real (total_size fs)) maxSz)"
      show "real (total_size (drop m (f # fs))) > maxSz * 0.8"
      proof (cases m)
        case 0
        with False show ?thesis by simp
      next
        case (Suc k)
        with m Cons.IH show ?thesis by simp
      qed
    qed
    with Cons.IH show ?thesis unfolding n by simp
  qed
qed

lemma total_size_mset: "mset xs = mset ys \<Longrightarrow> total_size xs = total_size ys"
  unfolding total_size_def by (metis mset_map sum_mset_sum_list)

lemma cleanupBySize_spec:
  assumes d: "distinct (map fname dir)" and m: "0 \<le> maxSz"
  defines "sorted_files \<equiv> sort_key mtime_ms dir"
  defines "n \<equiv> evict_count sorted_files (real (total_size sorted_files)) maxSz"
  shows "cleanupBySize dir maxSz = filter (\<lambda>f. f \<notin> set (take n sorted_files)) dir \<and>
    mset (cleanupBySize dir maxSz) = mset (drop n sorted_files)"
proof -
  have dd: "distinct dir" using d by (simp add: distinct_map)
  have ds: "distinct sorted_files" "set sorted_files = set dir"
    using dd by (simp_all add: sorted_files_def)
  from d have inj: "inj_on fname (set dir)" by (simp add: distinct_map)
  have c: "cleanupBySize dir maxSz =
      filter (\<lambda>f. fname f \<notin> set (map fname (take n sorted_files))) dir"
    by (simp add: cleanupBySize_def Let_def evict_eq fold_remove_file n_def sorted_files_def)
  have "filter (\<lambda>f. fname f \<notin> set (map fname (take n sorted_files))) dir =
      filter (\<lambda>f. f \<notin> set (take n sorted_files)) dir"
  proof (rule filter_cong [OF refl])
    fix f assume f: "f \<in> set dir"
    have "set (take n sorted_files) \<subseteq> set dir" using ds(2) set_take_subset by fastforce
    with inj f show "(fname f \<notin> set (map fname (take n sorted_files))) = (f \<notin> set (take n sorted_files))"
      by (auto dest: inj_onD)
  qed
  with c have c': "cleanupBySize dir maxSz = filter (\<lambda>f. f \<notin> set (take n sorted_files)) dir" by simp
  have "distinct (cleanupBySize dir maxSz)" unfolding c' using dd by simp
  moreover have "distinct (drop n sorted_files)" using ds(1) by simp
  moreover have "set (cleanupBySize dir maxSz) = set (drop n sorted_files)"
  proof -
    have "set sorted_files = set (take n sorted_files) \<union> set (drop n sorted_files)"
      by (metis append_take_drop_id set_append)
    moreover have "set (take n sorted_files) \<inter> set (drop n sorted_files) = {}"
      using ds(1) by (metis append_take_drop_id distinct_append)
    ultimately show ?thesis unfolding c' using ds(2) by auto
  qed
  ultimately have "mset (cleanupBySize dir maxSz) = mset (drop n sorted_files)"
    by (simp add: set_eq_iff_mset_eq_distinct)
  with c' show ?thesis by simp
qed

lemma sorted_take_drop:
  assumes "sorted (map k xs)" "d \<in> set (take n xs)" "s \<in> set (drop n xs)"
  shows "k d \<le> k s"
proof -
  have "sorted (map k (take n xs) @ map k (drop n xs))"
    using assms(1) by (metis append_take_drop_id map_append)
  with assms(2,3) show ?thesis by (auto simp: sorted_append)
qed

text \<open>
  A pass that runs to its end over an existing directory (file names distinct, as in any
  directory) with a non-negative size limit. The test that decides on the eviction uses
  the total summed during the scan, the marked files included. A pass that finds this
  total within the limit deletes exactly the expired and unparsable files. A pass that
  finds it above the limit leaves at most 80 % of the limit on disk; the unexpired entries
  it deletes are the first \<open>n\<close> in order of modification time, oldest first, every deleted
  one being at most as new as every survivor, and each of these deletions happened while
  the remaining size was still above 80 % of the limit.
\<close>

lemma cleanup_completed_pass:
  assumes "cacheDir cm = Some files" and "distinct (map fname files)" and "0 \<le> maxSize cm"
  shows "let live = filter (\<lambda>f. \<not> marked_for_deletion now f) files;
             oldest_first = sort_key mtime_ms live;
             dir' = files_of (cacheDir (cleanup cm now Completes))
         in (real (total_size files) \<le> maxSize cm \<longrightarrow> dir' = live) \<and>
            (real (total_size files) > maxSize cm \<longrightarrow>
               real (total_size dir') \<le> 0.8 * maxSize cm \<and>
               (\<exists>n. dir' = filter (\<lambda>f. f \<notin> set (take n oldest_first)) live \<and>
                    (\<forall>d\<in>set (take n oldest_first). \<forall>s\<in>set dir'. mtime_ms d \<le> mtime_ms s) \<and>
                    (\<forall>m<n. real (total_size (drop m oldest_first)) > 0.8 * maxSize cm)))"
proof -
  define live where "live = filter (\<lambda>f. \<not> marked_for_deletion now f) files"
  define oldest_first where "oldest_first = sort_key mtime_ms live"
  define n where "n = evict_count oldest_first (real (total_size oldest_first)) (maxSize cm)"
  let ?dir' = "files_of (cacheDir (cleanup cm now Completes))"
  have d1: "fold remove_file (map fname (filter (marked_for_deletion now) files)) files = live"
    unfolding live_def using assms(2) by (rule remove_marked)
  have small: "real (total_size files) \<le> maxSize cm \<Longrightarrow> ?dir' = live"
    by (simp add: cleanup_def Let_def d1 assms(1) files_of_def)
  have big: "real (total_size files) > maxSize cm \<Longrightarrow> ?dir' = cleanupBySize live (maxSize cm)"
    by (simp add: cleanup_def Let_def d1 assms(1) files_of_def)
  have dl: "distinct (map fname live)"
    unfolding live_def using assms(2) by (rule distinct_map_filter)
  note spec = cleanupBySize_spec [OF dl assms(3), folded oldest_first_def, folded n_def]
  from spec have c: "cleanupBySize live (maxSize cm) = filter (\<lambda>f. f \<notin> set (take n oldest_first)) live"
    by (rule conjunct1)
  from spec have ms: "mset (cleanupBySize live (maxSize cm)) = mset (drop n oldest_first)"
    by (rule conjunct2)
  note props = evict_count_props [OF assms(3), of oldest_first, folded n_def]
  from props have le: "real (total_size (drop n oldest_first)) \<le> maxSize cm * 0.8"
    and forced: "\<forall>m<n. real (total_size (drop m oldest_first)) > maxSize cm * 0.8"
    by blast+
  have size: "real (total_size (cleanupBySize live (maxSize cm))) \<le> 0.8 * maxSize cm"
    using le total_size_mset [OF ms] by (simp add: mult.commute)
  have srt: "sorted (map mtime_ms oldest_first)" by (simp add: oldest_first_def)
  have old: "\<forall>d\<in>set (take n oldest_first). \<forall>s\<in>set (cleanupBySize live (maxSize cm)).
      mtime_ms d \<le> mtime_ms s"
  proof (intro ballI)
    fix d s assume d: "d \<in> set (take n oldest_first)" and s: "s \<in> set (cleanupBySize live (maxSize cm))"
    from s ms have "s \<in> set (drop n oldest_first)" by (metis set_mset_mset)
    with srt d show "mtime_ms d \<le> mtime_ms s" by (rule sorted_take_drop)
  qed
  from forced have forced': "\<forall>m<n. real (total_size (drop m oldest_first)) > 0.8 * maxSize cm"
    by (simp add: mult.commute)
  show ?thesis
    unfolding Let_def live_def [symmetric] oldest_first_def [symmetric]
    using small big c size old forced' by auto
qed

text \<open>
  A pass that is abandoned after \<open>k\<close> removals has made the first \<open>k\<close> removals of the
  completed pass, in their order, and has left the memory map alone. When the directory
  does not exist the pass changes nothing.
\<close>

lemma cleanup_abandoned_pass:
  assumes "cacheDir cm = Some files"
  shows "memoryCache (cleanup cm now (Abandoned k)) = memoryCache cm \<and>
    (\<exists>names. files_of (cacheDir (cleanup cm now (Abandoned k))) = fold remove_file (take k names) files \<and>
       files_of (cacheDir (cleanup cm now Completes)) = fold remove_file names files)"
proof -
  let ?expired = "map fname (filter (marked_for_deletion now) files)"
  let ?d1 = "fold remove_file ?expired files"
  let ?names = "?expired @
      (if real (total_size files) > maxSize cm then eviction_order ?d1 (maxSize cm) else [])"
  have "cleanupBySize ?d1 (maxSize cm) = fold remove_file (eviction_order ?d1 (maxSize cm)) ?d1"
    by (simp add: cleanupBySize_def eviction_order_def Let_def evict_eq)
  then have "files_of (cacheDir (cleanup cm now Completes)) = fold remove_file ?names files"
    by (simp add: cleanup_def Let_def assms files_of_def)
  moreover have "files_of (cacheDir (cleanup cm now (Abandoned k))) =
      fold remove_file (take k ?names) files"
    by (simp add: cleanup_def Let_def assms files_of_def)
  moreover have "memoryCache (cleanup cm now (Abandoned k)) = memoryCache cm"
    by (simp add: cleanup_def Let_def assms)
  ultimately show ?thesis by blast
qed

lemma cleanup_missing_directory: "cacheDir cm = None \<Longrightarrow> cleanup cm now pass = cm"
  by (simp add: cleanup_def)

lemma crowded_marked: "marked_for_deletion 500 file_expired" "\<not> marked_for_deletion 500 file_old"
  "\<not> marked_for_deletion 500 file_new"
  by (simp_all add: marked_for_deletion_def file_new_def file_expired_def file_old_def cached_until_def isExpired_def)

lemma crowded_fields: "fname file_expired = ''aaaa''" "fname file_old = ''bbbb''" "fname file_new = ''cccc''"
  "fsize file_expired = 50" "fsize file_old = 45" "fsize file_new = 45"
  "mtime_ms file_expired = 1" "mtime_ms file_old = 2" "mtime_ms file_new = 3"
  by (simp_all add: file_new_def file_expired_def file_old_def mtime_ms_def)

text \<open>
  Claim C4 fails on the sample \<open>crowded_cache\<close>: a limit of 100 bytes over the files
  \<open>cccc\<close> (45 bytes), \<open>aaaa\<close> (50 bytes, expired) and \<open>bbbb\<close> (45 bytes), the last two older
  than the first; \<open>bbbb\<close> and \<open>cccc\<close> parse and are unexpired at time 500. The pass at time
  500 removes the expired file, which leaves 90 bytes on disk, within the limit. It calls
  \<open>cleanupBySize\<close> all the same, because its test reads the 140 bytes summed up before
  the removals, and the unexpired entry \<open>bbbb\<close> is deleted although the size bound did not
  force it.
\<close>

theorem cleanup_evicts_within_limit:
  "cacheDir crowded_cache = Some [file_new, file_expired, file_old] \<and>
   maxSize crowded_cache = 100 \<and>
   marked_for_deletion 500 file_expired \<and>
   \<not> marked_for_deletion 500 file_old \<and>
   \<not> marked_for_deletion 500 file_new \<and>
   total_size [file_new, file_expired, file_old] = 140 \<and>
   total_size [file_new, file_old] = 90 \<and>
   cacheDir (cleanup crowded_cache 500 Completes) = Some [file_new]"
  by (simp add: cleanup_def Let_def crowded_cache_def crowded_marked crowded_fields remove_file_def
      total_size_def cleanupBySize_def)

section \<open>Properties of prompt generation\<close>

text \<open>
  A result of \<open>generate\<close> was returned by one of the API operations, and its metadata
  records the prompt that the first statement of \<open>generate\<close> computed.
\<close>

lemma execute_loop_result:
  "fst (execute_loop operation random maxRetries attempt lastError tr) = Inr v \<Longrightarrow>
   \<exists>i. operation i = Inr v"
proof (induction operation random maxRetries attempt lastError tr rule: execute_loop.induct)
  case (1 operation random maxRetries attempt lastError tr)
  show ?case
  proof (cases "attempt \<le> maxRetries")
    case False
    with "1.prems" show ?thesis by (simp add: execute_loop.simps)
  next
    case True
    show ?thesis
    proof (cases "operation (invocations tr)")
      case (Inr w)
      with True "1.prems" have "w = v"
        by (simp add: execute_loop.simps [of operation random maxRetries attempt])
      with Inr show ?thesis by blast
    next
      case (Inl error)
      show ?thesis
      proof (cases "isRateLimitError error")
        case rate: True
        with True Inl "1.prems"
        have "fst (execute_loop operation random maxRetries (Suc attempt) (Some error)
            (backoff random attempt (tr\<lparr>invocations := Suc (invocations tr)\<rparr>))) = Inr v"
          by (simp add: execute_loop.simps [of operation random maxRetries attempt])
        from "1.IH"(1) [OF True refl Inl rate this] show ?thesis .
      next
        case norate: False
        show ?thesis
        proof (cases "isRetryableError error \<and> attempt < maxRetries")
          case again: True
          with True Inl norate "1.prems"
          have "fst (execute_loop operation random maxRetries (Suc attempt) (Some error)
              (backoff random attempt (tr\<lparr>invocations := Suc (invocations tr)\<rparr>))) = Inr v"
            by (simp add: execute_loop.simps [of operation random maxRetries attempt])
          from "1.IH"(2) [OF True refl Inl norate again this] show ?thesis .
        next
          case False
          with True Inl norate "1.prems" show ?thesis
            by (auto simp add: execute_loop.simps [of operation random maxRetries attempt])
        qed
      qed
    qed
  qed
qed

lemma api_operation_prompt:
  "api_operation client ids request options prompt i = Inr result \<Longrightarrow>
   meta_finalPrompt (res_metadata result) = prompt"
  by (auto simp: api_operation_def createMetadata_def split: sum.splits option.splits list.splits if_splits)

lemma generate_final_prompt:
  assumes "fst (generate client random ids request options) = Inr result"
  shows "optimizedPrompt request options = Inr (meta_finalPrompt (res_metadata result))"
proof (cases "optimizedPrompt request options")
  case (Inl error)
  with assms show ?thesis by (simp add: generate_def)
next
  case (Inr prompt)
  with assms have "fst (execute (api_operation client ids request options prompt) random 3) = Inr result"
    by (simp add: generate_def)
  then have "\<exists>i. api_operation client ids request options prompt i = Inr result"
    unfolding execute_def by (rule execute_loop_result)
  then obtain i where "api_operation client ids request options prompt i = Inr result" ..
  then have "meta_finalPrompt (res_metadata result) = prompt" by (rule api_operation_prompt)
  with Inr show ?thesis by simp
qed


lemma generate_first_try:
  assumes "optimizedPrompt request options = Inr prompt"
    and "api_operation client ids request options prompt 0 = Inr result"
  shows "fst (generate client random ids request options) = Inr result"
  unfolding generate_def assms(1) sum.case execute_def
  by (subst execute_loop_success [where v = result]) (simp_all add: trace0_def assms(2))


lemma addColorGuidance_append: "addColorGuidance prompt colors = prompt @ addColorGuidance [] colors"
  by (simp add: addColorGuidance_def Let_def split: option.splits)

text \<open>
  The structured composition itself, which \<open>ProfessionalPromptEngine.optimizePrompt\<close>
  returns when it is called without a template: style keywords, \<open>logo of\<close>, company and
  prompt, technical requirements, \<open>on white background\<close>, then the \<open>--\<close> clauses of the
  default and the supplied negatives.
\<close>

lemma generateStructuredPrompt_shape:
  "generateStructuredPrompt request options =
     trim (getStyleKeywords (or_else (opt_style options) (or_else (req_style request) ''modern'')) @
           '' logo of '' @ req_company request @ '', '' @ req_prompt request @ '' '' @
           getTechnicalRequirements options @ '' on white background'' @ '' --'' @
           join '' --'' (getDefaultNegatives @
             (case opt_negativePrompts options of None \<Rightarrow> [] | Some ns \<Rightarrow> ns)))"
  by (simp add: generateStructuredPrompt_def Let_def)

text \<open>
  Claim C1 as stated fails on the generator. Without a template \<open>generate\<close> takes its
  prompt from \<open>PromptEngine.optimize\<close>, not from the structured composition of the
  professional engine: for company \<open>Acme\<close> and prompt \<open>bold new idea\<close> the final prompt
  does not contain \<open>logo of Acme, bold new idea\<close>, does not start with the style-keyword
  phrase of \<open>modern\<close>, and has no \<open>--\<close> clause.
\<close>

theorem generator_prompt_counterexample:
  "\<not> truthy (opt_template no_options) \<and>
   optimizedPrompt acme_request no_options = Inr
     ''modern professional logo for Acme: bold new idea, contemporary design, sleek lines, current trends, clean geometric shapes, scalable vector design, professional quality, suitable for branding, on white background, high contrast, memorable and distinctive'' \<and>
   map_sum id (meta_finalPrompt \<circ> res_metadata)
     (fst (generate working_client half_jitter sample_ids acme_request no_options)) = Inr
     ''modern professional logo for Acme: bold new idea, contemporary design, sleek lines, current trends, clean geometric shapes, scalable vector design, professional quality, suitable for branding, on white background, high contrast, memorable and distinctive'' \<and>
   \<not> str_includes
     ''modern professional logo for Acme: bold new idea, contemporary design, sleek lines, current trends, clean geometric shapes, scalable vector design, professional quality, suitable for branding, on white background, high contrast, memorable and distinctive''
     ''logo of Acme, bold new idea'' \<and>
   \<not> prefix (getStyleKeywords ''modern'')
     ''modern professional logo for Acme: bold new idea, contemporary design, sleek lines, current trends, clean geometric shapes, scalable vector design, professional quality, suitable for branding, on white background, high contrast, memorable and distinctive'' \<and>
   \<not> str_includes
     ''modern professional logo for Acme: bold new idea, contemporary design, sleek lines, current trends, clean geometric shapes, scalable vector design, professional quality, suitable for branding, on white background, high contrast, memorable and distinctive''
     ''--''"
proof (intro conjI)
  show "\<not> truthy (opt_template no_options)" by (simp add: truthy_def no_options_def)
  show p: "optimizedPrompt acme_request no_options = Inr
     ''modern professional logo for Acme: bold new idea, contemporary design, sleek lines, current trends, clean geometric shapes, scalable vector design, professional quality, suitable for branding, on white background, high contrast, memorable and distinctive''"
    by (simp add: optimizedPrompt_def acme_request_def no_options_def truthy_def optimize_def
      buildBasePrompt_def addStyleElements_def addColorGuidance_def addQualityModifiers_def
      qualityModifiers_def styleModifiers_def or_opt_def colors_or_def)
  have "\<exists>result. api_operation working_client sample_ids acme_request no_options
      ''modern professional logo for Acme: bold new idea, contemporary design, sleek lines, current trends, clean geometric shapes, scalable vector design, professional quality, suitable for branding, on white background, high contrast, memorable and distinctive'' 0 = Inr result"
    by (simp add: api_operation_def working_client_def)
  then obtain result where r: "api_operation working_client sample_ids acme_request no_options
      ''modern professional logo for Acme: bold new idea, contemporary design, sleek lines, current trends, clean geometric shapes, scalable vector design, professional quality, suitable for branding, on white background, high contrast, memorable and distinctive'' 0 = Inr result" ..
  from generate_first_try [OF p r]
  have g: "fst (generate working_client half_jitter sample_ids acme_request no_options) = Inr result" .
  from r have "meta_finalPrompt (res_metadata result) =
      ''modern professional logo for Acme: bold new idea, contemporary design, sleek lines, current trends, clean geometric shapes, scalable vector design, professional quality, suitable for branding, on white background, high contrast, memorable and distinctive''"
    by (rule api_operation_prompt)
  with g show "map_sum id (meta_finalPrompt \<circ> res_metadata)
     (fst (generate working_client half_jitter sample_ids acme_request no_options)) = Inr
     ''modern professional logo for Acme: bold new idea, contemporary design, sleek lines, current trends, clean geometric shapes, scalable vector design, professional quality, suitable for branding, on white background, high contrast, memorable and distinctive''"
    by simp
qed (simp_all add: getStyleKeywords_def styleMap_def)

text \<open>
  Claim C1, amended. For every generation request with no template selected, the final
  prompt produced by the generator is, in this order: the style name (from the options, else
  from the request, else \<open>modern\<close>), a base description (that of the industry when the
  industry has one, else \<open>professional logo\<close>), \<open>for\<close>, the company name, a colon and the
  free-text prompt, then the style's modifier phrase (empty if the style has none), the
  colour guidance when colours are given, and the fixed quality modifiers, which include
  \<open>on white background\<close>. No negative-prompt clause is appended.
\<close>

theorem generator_prompt_without_template:
  assumes "\<not> truthy (opt_template options)"
  shows "let style = or_else (opt_style options) (or_else (req_style request) ''modern'');
             baseDescription =
               (case or_opt (opt_industry options) (req_industry request) of
                  None \<Rightarrow> ''professional logo''
                | Some i \<Rightarrow> or_else (map_option pt_base (map_of templates i)) ''professional logo'');
             styleElements = or_else (map_of styleModifiers style) [];
             colorGuidance =
               addColorGuidance [] (colors_or (opt_colors options) (req_colors request));
             finalPrompt =
               style @ '' '' @ baseDescription @ '' for '' @ req_company request @ '': '' @
               req_prompt request @ '', '' @ styleElements @ colorGuidance @
               '', clean geometric shapes, scalable vector design, professional quality, suitable for branding, on white background, high contrast, memorable and distinctive''
         in optimizedPrompt request options = Inr finalPrompt \<and>
            (fst (generate client random ids request options) = Inr result \<longrightarrow>
               meta_finalPrompt (res_metadata result) = finalPrompt)"
proof -
  have q: "join '', '' qualityModifiers =
      ''clean geometric shapes, scalable vector design, professional quality, suitable for branding, on white background, high contrast, memorable and distinctive''"
    by (simp add: qualityModifiers_def)
  have e: "map_of templates [] = None" by (simp add: templates_def)
  have b: "buildBasePrompt request style industry =
      style @ '' '' @ (case industry of None \<Rightarrow> ''professional logo''
         | Some i \<Rightarrow> or_else (map_option pt_base (map_of templates i)) ''professional logo'') @
      '' for '' @ req_company request @ '': '' @ req_prompt request"
    for style industry
    by (cases industry) (simp_all add: buildBasePrompt_def Let_def e)
  have "optimizedPrompt request options = Inr (optimize request options)"
    using assms by (simp add: optimizedPrompt_def)
  moreover have "optimize request options =
      addQualityModifiers
        (addColorGuidance
           (addStyleElements
              (buildBasePrompt request
                 (or_else (opt_style options) (or_else (req_style request) ''modern''))
                 (or_opt (opt_industry options) (req_industry request)))
              (or_else (opt_style options) (or_else (req_style request) ''modern'')))
           (colors_or (opt_colors options) (req_colors request)))"
    by (simp add: optimize_def Let_def)
  ultimately have p: "optimizedPrompt request options = Inr
      (or_else (opt_style options) (or_else (req_style request) ''modern'') @ '' '' @
       (case or_opt (opt_industry options) (req_industry request) of
          None \<Rightarrow> ''professional logo''
        | Some i \<Rightarrow> or_else (map_option pt_base (map_of templates i)) ''professional logo'') @
       '' for '' @ req_company request @ '': '' @ req_prompt request @ '', '' @
       or_else (map_of styleModifiers
         (or_else (opt_style options) (or_else (req_style request) ''modern''))) [] @
       addColorGuidance [] (colors_or (opt_colors options) (req_colors request)) @
       '', clean geometric shapes, scalable vector design, professional quality, suitable for branding, on white background, high contrast, memorable and distinctive'')"
    by (simp add: addQualityModifiers_def q addStyleElements_def Let_def b
        addColorGuidance_append [of "_ @ _"])
  show ?thesis
    unfolding Let_def
  proof (intro conjI impI)
    assume "fst (generate client random ids request options) = Inr result"
    from generate_final_prompt [OF this] p
    show "meta_finalPrompt (res_metadata result) =
      or_else (opt_style options) (or_else (req_style request) ''modern'') @ '' '' @
       (case or_opt (opt_industry options) (req_industry request) of
          None \<Rightarrow> ''professional logo''
        | Some i \<Rightarrow> or_else (map_option pt_base (map_of templates i)) ''professional logo'') @
       '' for '' @ req_company request @ '': '' @ req_prompt request @ '', '' @
       or_else (map_of styleModifiers
         (or_else (opt_style options) (or_else (req_style request) ''modern''))) [] @
       addColorGuidance [] (colors_or (opt_colors options) (req_colors request)) @
       '', clean geometric shapes, scalable vector design, professional quality, suitable for branding, on white background, high contrast, memorable and distinctive''"
      by simp
  qed (rule p)
qed


lemma tech_prompt: "optimizedPrompt acme_request tech_options = Inr
     ''bold minimalist tech logo with geometric elements for Acme: bold new idea, strong visual impact, dramatic elements, confident, using red and blue colors, clean geometric shapes, scalable vector design, professional quality, suitable for branding, on white background, high contrast, memorable and distinctive''"
  by (simp add: optimizedPrompt_def tech_options_def acme_request_def no_options_def truthy_def
      optimize_def buildBasePrompt_def addStyleElements_def addColorGuidance_def
      addQualityModifiers_def qualityModifiers_def styleModifiers_def templates_def or_opt_def
      colors_or_def)

lemma tech_generated:
  "fst (generate working_client half_jitter sample_ids acme_request tech_options) = Inr tech_logo"
  by (rule generate_first_try [OF tech_prompt])
     (simp add: api_operation_def working_client_def createMetadata_def sample_ids_def
       acme_request_def tech_options_def no_options_def or_opt_def truthy_def calculateCost_def
       tech_logo_def)

theorem generator_prompt_without_template_witness:
  "\<not> truthy (opt_template tech_options) \<and>
   fst (generate working_client half_jitter sample_ids acme_request tech_options) = Inr tech_logo \<and>
   optimizedPrompt acme_request tech_options = Inr
     ''bold minimalist tech logo with geometric elements for Acme: bold new idea, strong visual impact, dramatic elements, confident, using red and blue colors, clean geometric shapes, scalable vector design, professional quality, suitable for branding, on white background, high contrast, memorable and distinctive'' \<and>
   meta_finalPrompt (res_metadata tech_logo) =
     ''bold minimalist tech logo with geometric elements for Acme: bold new idea, strong visual impact, dramatic elements, confident, using red and blue colors, clean geometric shapes, scalable vector design, professional quality, suitable for branding, on white background, high contrast, memorable and distinctive''"
proof -
  have h: "\<not> truthy (opt_template tech_options)"
    by (simp add: truthy_def tech_options_def no_options_def)
  have e: "or_else (opt_style tech_options) (or_else (req_style acme_request) ''modern'') @ '' '' @
       (case or_opt (opt_industry tech_options) (req_industry acme_request) of
          None \<Rightarrow> ''professional logo''
        | Some i \<Rightarrow> or_else (map_option pt_base (map_of templates i)) ''professional logo'') @
       '' for '' @ req_company acme_request @ '': '' @ req_prompt acme_request @ '', '' @
       or_else (map_of styleModifiers
         (or_else (opt_style tech_options) (or_else (req_style acme_request) ''modern''))) [] @
       addColorGuidance [] (colors_or (opt_colors tech_options) (req_colors acme_request)) @
       '', clean geometric shapes, scalable vector design, professional quality, suitable for branding, on white background, high contrast, memorable and distinctive'' =
     ''bold minimalist tech logo with geometric elements for Acme: bold new idea, strong visual impact, dramatic elements, confident, using red and blue colors, clean geometric shapes, scalable vector design, professional quality, suitable for branding, on white background, high contrast, memorable and distinctive''"
    by (simp add: tech_options_def no_options_def acme_request_def or_opt_def truthy_def
        templates_def styleModifiers_def colors_or_def addColorGuidance_def)
  note c = generator_prompt_without_template
    [OF h, of acme_request working_client half_jitter sample_ids tech_logo,
     unfolded Let_def e]
  from c tech_generated h show ?thesis by blast
qed

lemma template_map_None: "template_map t = None \<longleftrightarrow> t \<notin> set (map tpl_id professionalTemplates)"
  by (simp add: template_map_def map_of_eq_None_iff image_image)

text \<open>
  Claim C7. When the options name a template id (a non-empty string) that is not in the
  template catalogue, template-based prompt generation fails with the error
  \<open>Template not found: <id>\<close>, \<open>generate\<close> fails with that error, and the operation that
  calls the image API is never invoked: the failure precedes the retry wrapper.
\<close>

theorem unknown_template_fails_before_api:
  assumes "opt_template options = Some t" and "t \<noteq> []"
    and "t \<notin> set (map tpl_id professionalTemplates)"
  shows "generateFromTemplate request options = Inl (new_Error (''Template not found: '' @ t)) \<and>
    generate client random ids request options =
      (Inl (Some (new_Error (''Template not found: '' @ t))), trace0) \<and>
    invocations (snd (generate client random ids request options)) = 0"
proof -
  from assms(3) have n: "template_map t = None" by (simp add: template_map_None)
  with assms(1) have g: "generateFromTemplate request options =
      Inl (new_Error (''Template not found: '' @ t))"
    by (simp add: generateFromTemplate_def template_text_def)
  from assms(1,2) have "truthy (opt_template options)" by (simp add: truthy_def)
  with g have "optimizedPrompt request options = Inl (new_Error (''Template not found: '' @ t))"
    by (simp add: optimizedPrompt_def optimizePrompt_def)
  then have "generate client random ids request options =
      (Inl (Some (new_Error (''Template not found: '' @ t))), trace0)"
    by (simp add: generate_def)
  with g show ?thesis by (simp add: trace0_def)
qed

theorem unknown_template_fails_before_api_witness:
  "opt_template unknown_template_options = Some ''minimal-hexagon'' \<and> ''minimal-hexagon'' \<noteq> [] \<and>
   ''minimal-hexagon'' \<notin> set (map tpl_id professionalTemplates) \<and>
   generate working_client half_jitter sample_ids acme_request unknown_template_options =
     (Inl (Some (new_Error ''Template not found: minimal-hexagon'')), trace0) \<and>
   invocations (snd (generate working_client half_jitter sample_ids acme_request
     unknown_template_options)) = 0"
proof -
  have h1: "opt_template unknown_template_options = Some ''minimal-hexagon''"
    by (simp add: unknown_template_options_def no_options_def)
  have h2: "''minimal-hexagon'' \<noteq> []" by simp
  have h3: "''minimal-hexagon'' \<notin> set (map tpl_id professionalTemplates)"
    by (simp add: professionalTemplates_def)
  from unknown_template_fails_before_api [OF h1 h2 h3, of acme_request working_client half_jitter sample_ids]
    h1 h2 h3
  show ?thesis by (simp add: trace0_def)
qed

section \<open>Placeholders that interpolation leaves alone\<close>

lemma str_includes_sublist: "str_includes s pat = sublist pat s"
  by (induction s) (simp_all add: sublist_Cons_right)

lemma prefix_kept:
  "clear_of pat tok \<Longrightarrow> prefix tok s \<Longrightarrow> prefix tok (replace_from pat rep preceding s)"
proof (induction tok arbitrary: s preceding)
  case Nil
  show ?case by simp
next
  case (Cons c tok')
  from Cons.prems(2) obtain s' where s: "s = c # s'" and p: "prefix tok' s'"
    by (cases s) auto
  from Cons.prems(1) have np: "\<not> prefix pat (c # tok')" "\<not> prefix (c # tok') pat"
    and cl: "clear_of pat tok'" by simp_all
  have "\<not> prefix pat (c # s')"
  proof
    assume "prefix pat (c # s')"
    moreover from p have "prefix (c # tok') (c # s')" by simp
    ultimately have "prefix pat (c # tok') \<or> prefix (c # tok') pat"
      by (rule prefix_same_cases)
    with np show False by blast
  qed
  then have "replace_from pat rep preceding (c # s') =
      c # replace_from pat rep (preceding @ [c]) s'"
    by simp
  with Cons.IH [OF cl p] s show ?case by simp
qed

lemma sublist_past_match:
  "clear_of tok pat \<Longrightarrow> sublist tok (pat @ rest) \<Longrightarrow> sublist tok rest"
proof (induction pat)
  case Nil
  then show ?case by simp
next
  case (Cons p ps)
  from Cons.prems(1) have np: "\<not> prefix tok (p # ps)" "\<not> prefix (p # ps) tok"
    and cl: "clear_of tok ps" by simp_all
  have "\<not> prefix tok (p # ps @ rest)"
  proof
    assume "prefix tok (p # ps @ rest)"
    moreover have "prefix (p # ps) (p # ps @ rest)" by simp
    ultimately have "prefix tok (p # ps) \<or> prefix (p # ps) tok"
      by (rule prefix_same_cases)
    with np show False by blast
  qed
  with Cons.prems(2) have "sublist tok (ps @ rest)" by (simp add: sublist_Cons_right)
  with cl show ?case by (rule Cons.IH)
qed

lemma sublist_kept:
  "no_overlap pat tok \<Longrightarrow> sublist tok s \<Longrightarrow> sublist tok (replace_from pat rep preceding s)"
proof (induction pat rep preceding s rule: replace_from.induct)
  case (1 pat rep preceding)
  then show ?case by simp
next
  case (2 pat rep preceding c cs)
  from "2.prems"(1) have c1: "clear_of pat tok" and c2: "clear_of tok pat"
    by (simp_all add: no_overlap_def)
  show ?case
  proof (cases "pat \<noteq> [] \<and> prefix pat (c # cs)")
    case True
    then have s: "c # cs = pat @ drop (length pat) (c # cs)"
      by (metis append_eq_conv_conj prefixE)
    with "2.prems"(2) have "sublist tok (pat @ drop (length pat) (c # cs))" by simp
    with c2 have "sublist tok (drop (length pat) (c # cs))" by (rule sublist_past_match)
    with "2.IH"(1) [OF True "2.prems"(1)]
    have "sublist tok (replace_from pat rep (preceding @ pat) (drop (length pat) (c # cs)))" .
    then have "sublist tok (getSubstitution pat preceding (drop (length pat) (c # cs)) rep @
        replace_from pat rep (preceding @ pat) (drop (length pat) (c # cs)))"
      by (simp add: sublist_append)
    with True show ?thesis by simp
  next
    case False
    then have r: "replace_from pat rep preceding (c # cs) =
        c # replace_from pat rep (preceding @ [c]) cs"
      by auto
    from "2.prems"(2) have "prefix tok (c # cs) \<or> sublist tok cs"
      by (simp add: sublist_Cons_right)
    then show ?thesis
    proof
      assume "prefix tok (c # cs)"
      with c1 have "prefix tok (replace_from pat rep preceding (c # cs))" by (rule prefix_kept)
      then show ?thesis by (rule prefix_imp_sublist)
    next
      assume "sublist tok cs"
      with "2.IH"(2) [OF False "2.prems"(1)]
      have "sublist tok (replace_from pat rep (preceding @ [c]) cs)" .
      with r show ?thesis by (simp add: sublist_Cons_right)
    qed
  qed
qed

lemma replace_all_keeps:
  "no_overlap pat tok \<Longrightarrow> str_includes s tok \<Longrightarrow> str_includes (replace_all pat rep s) tok"
  unfolding replace_all_def str_includes_sublist by (rule sublist_kept)


lemma placeholder_form:
  "is_placeholder tok \<longleftrightarrow> (\<exists>name. tok = CHR ''['' # name @ [CHR '']''] \<and> bracket_free name)"
proof
  assume "is_placeholder tok"
  then obtain rest where t: "tok = CHR ''['' # rest" and r: "rest \<noteq> []" "last rest = CHR '']''"
    "bracket_free (butlast rest)"
    by (auto simp: is_placeholder_def split: list.splits)
  from r(1,2) have "rest = butlast rest @ [CHR '']'']" by (metis append_butlast_last_id)
  with t r(3) show "\<exists>name. tok = CHR ''['' # name @ [CHR '']''] \<and> bracket_free name" by blast
next
  assume "\<exists>name. tok = CHR ''['' # name @ [CHR '']''] \<and> bracket_free name"
  then show "is_placeholder tok" by (auto simp: is_placeholder_def)
qed

lemma clear_of_other_start:
  "pat = c # ps \<Longrightarrow> c \<notin> set u \<Longrightarrow> clear_of pat u"
  by (induction u) auto

lemma placeholder_prefix_eq:
  assumes "bracket_free pn" "bracket_free tn"
    and "prefix (CHR ''['' # pn @ [CHR '']'']) (CHR ''['' # tn @ [CHR '']''])"
  shows "pn = tn"
proof -
  from assms(3) obtain z where z: "tn @ [CHR '']''] = (pn @ [CHR '']'']) @ z"
    by (auto simp: prefix_def)
  show ?thesis
  proof (cases z rule: rev_cases)
    case Nil
    with z show ?thesis by simp
  next
    case (snoc z' l)
    with z have "tn = pn @ CHR '']'' # z'" by simp
    then have "CHR '']'' \<in> set tn" by simp
    with assms(2) show ?thesis by (auto simp: bracket_free_def list_all_iff)
  qed
qed

lemma placeholder_clear:
  assumes "is_placeholder pat" "is_placeholder tok" "pat \<noteq> tok"
  shows "clear_of pat tok"
proof -
  from assms(1) obtain pn where p: "pat = CHR ''['' # pn @ [CHR '']'']" "bracket_free pn"
    by (auto simp: placeholder_form)
  from assms(2) obtain tn where t: "tok = CHR ''['' # tn @ [CHR '']'']" "bracket_free tn"
    by (auto simp: placeholder_form)
  from t(2) have "CHR ''['' \<notin> set (tn @ [CHR '']''])"
    by (auto simp: bracket_free_def list_all_iff)
  with p(1) have tail: "clear_of pat (tn @ [CHR '']''])" by (rule clear_of_other_start)
  have "\<not> prefix pat tok"
  proof
    assume "prefix pat tok"
    with p t have "pn = tn" by (auto intro: placeholder_prefix_eq)
    with p t assms(3) show False by simp
  qed
  moreover have "\<not> prefix tok pat"
  proof
    assume "prefix tok pat"
    with p t have "tn = pn" by (auto intro: placeholder_prefix_eq)
    with p t assms(3) show False by simp
  qed
  ultimately show ?thesis using tail t(1) by simp
qed

lemma placeholder_no_overlap:
  "is_placeholder pat \<Longrightarrow> is_placeholder tok \<Longrightarrow> pat \<noteq> tok \<Longrightarrow> no_overlap pat tok"
  unfolding no_overlap_def using placeholder_clear [of pat tok] placeholder_clear [of tok pat]
  by blast

lemma replacement_set_placeholders: "\<forall>pat\<in>set (replacement_set options). is_placeholder pat"
  by (auto simp: replacement_set_def is_placeholder_def bracket_free_def split: option.splits)

lemma interpolateTemplate_keeps:
  assumes "is_placeholder tok" and "tok \<notin> set (replacement_set options)"
    and "str_includes template tok"
  shows "str_includes (interpolateTemplate template request options) tok"
proof -
  have k: "str_includes (replace_all pat rep s) tok"
    if "pat \<in> set (replacement_set options)" "str_includes s tok" for pat rep s
  proof -
    from that(1) replacement_set_placeholders have "is_placeholder pat" by blast
    moreover from that(1) assms(2) have "pat \<noteq> tok" by blast
    ultimately have "no_overlap pat tok" using assms(1) by (intro placeholder_no_overlap)
    then show ?thesis using that(2) by (rule replace_all_keeps)
  qed
  have basic: "''[COMPANY]'' \<in> set (replacement_set options)" "''[PROMPT]'' \<in> set (replacement_set options)"
    "''[STYLE]'' \<in> set (replacement_set options)" "''[INDUSTRY]'' \<in> set (replacement_set options)"
    by (simp_all add: replacement_set_def)
  let ?r4 = "replace_all ''[INDUSTRY]'' (or_else (opt_industry options) ''business'')
      (replace_all ''[STYLE]'' (or_else (opt_style options) ''modern'')
        (replace_all ''[PROMPT]'' (req_prompt request)
          (replace_all ''[COMPANY]'' (req_company request) template)))"
  have r4: "str_includes ?r4 tok"
    by (intro k basic assms(3))
  show ?thesis
  proof (cases "opt_colors options")
    case None
    with r4 show ?thesis by (simp add: interpolateTemplate_def Let_def)
  next
    case (Some cs)
    show ?thesis
    proof (cases "length cs > 0")
      case False
      with Some r4 show ?thesis by (simp add: interpolateTemplate_def Let_def)
    next
      case True
      with Some have col: "''[PRIMARY_COLOR]'' \<in> set (replacement_set options)"
        "''[SECONDARY_COLOR]'' \<in> set (replacement_set options)"
        "''[COLOR_PALETTE]'' \<in> set (replacement_set options)"
        by (simp_all add: replacement_set_def)
      have "str_includes (replace_all ''[COLOR_PALETTE]'' (join '' and '' cs)
          (replace_all ''[SECONDARY_COLOR]'' (if length cs > 1 \<and> cs ! 1 \<noteq> [] then cs ! 1 else cs ! 0)
            (replace_all ''[PRIMARY_COLOR]'' (cs ! 0) ?r4))) tok"
        by (intro k col r4)
      with Some True show ?thesis by (simp add: interpolateTemplate_def Let_def)
    qed
  qed
qed

lemma str_includes_append: "str_includes s tok \<Longrightarrow> str_includes (s @ t) tok"
  by (simp add: str_includes_sublist sublist_append)

lemma named_tokens_outside:
  "tok \<in> set [''[SHAPE]'', ''[LETTER]'', ''[ELEMENT]'', ''[SYMBOL]''] \<Longrightarrow>
     is_placeholder tok \<and> tok \<notin> set (replacement_set options)"
  "tok \<in> set [''[PRIMARY_COLOR]'', ''[SECONDARY_COLOR]'', ''[COLOR_PALETTE]''] \<Longrightarrow>
     opt_colors options = None \<or> opt_colors options = Some [] \<Longrightarrow>
     is_placeholder tok \<and> tok \<notin> set (replacement_set options)"
  by (auto simp: replacement_set_def is_placeholder_def bracket_free_def split: option.splits)

text \<open>
  Claim C10. In template-based prompt generation a placeholder token of the template's base
  prompt that is outside the set of patterns which interpolation replaces stays verbatim
  in the final prompt. This holds for every bracketed token that is not one of the replaced
  patterns, among them \<open>[SHAPE]\<close>, \<open>[LETTER]\<close>, \<open>[ELEMENT]\<close> and \<open>[SYMBOL]\<close> under all
  options, and \<open>[PRIMARY_COLOR]\<close>, \<open>[SECONDARY_COLOR]\<close> and \<open>[COLOR_PALETTE]\<close> when the
  options carry no colours.
\<close>

theorem placeholders_left_verbatim:
  assumes "opt_template options = Some t" and "template_map t = Some template"
    and "str_includes (tpl_basePrompt template) tok"
    and "(is_placeholder tok \<and> tok \<notin> set (replacement_set options)) \<or>
         tok \<in> set [''[SHAPE]'', ''[LETTER]'', ''[ELEMENT]'', ''[SYMBOL]''] \<or>
         (tok \<in> set [''[PRIMARY_COLOR]'', ''[SECONDARY_COLOR]'', ''[COLOR_PALETTE]''] \<and>
          (opt_colors options = None \<or> opt_colors options = Some []))"
  shows "\<exists>prompt. generateFromTemplate request options = Inr prompt \<and> str_includes prompt tok"
proof -
  from assms(4) have "is_placeholder tok \<and> tok \<notin> set (replacement_set options)"
    using named_tokens_outside [of tok options] by blast
  with assms(3)
  have "str_includes (interpolateTemplate (tpl_basePrompt template) request options) tok"
    by (intro interpolateTemplate_keeps) simp_all
  then have "str_includes (interpolateTemplate (tpl_basePrompt template) request options @ x) tok"
    and "str_includes ((interpolateTemplate (tpl_basePrompt template) request options @ x) @ y) tok"
    for x y
    by (simp_all add: str_includes_append)
  with assms(1,2) show ?thesis
    by (simp add: generateFromTemplate_def Let_def)
qed

lemma geometric_template:
  "template_map ''minimal-geometric'' = Some (hd professionalTemplates)"
  by (simp add: template_map_def professionalTemplates_def)

lemma geometric_base:
  "tpl_basePrompt (hd professionalTemplates) =
     ''Minimalist geometric logo, [SHAPE] form, flat vector design, [PRIMARY_COLOR] on white background, sharp edges, scalable''"
  "tpl_negativePrompts (hd professionalTemplates) = [''no gradients'', ''no 3D effects'', ''no ornate details'']"
  by (simp_all add: professionalTemplates_def)

lemma geometric_interpolated:
  "interpolateTemplate
     ''Minimalist geometric logo, [SHAPE] form, flat vector design, [PRIMARY_COLOR] on white background, sharp edges, scalable''
     acme_request geometric_options =
     ''Minimalist geometric logo, [SHAPE] form, flat vector design, [PRIMARY_COLOR] on white background, sharp edges, scalable''"
  by (simp add: interpolateTemplate_def replace_all_def geometric_options_def no_options_def acme_request_def)

lemma geometric_prompt:
  "generateFromTemplate acme_request geometric_options = Inr
     ''Minimalist geometric logo, [SHAPE] form, flat vector design, [PRIMARY_COLOR] on white background, sharp edges, scalableflat vector design, scalable, professional quality, high contrast --no gradients --no 3D effects --no ornate details''"
proof -
  have o: "opt_template geometric_options = Some ''minimal-geometric''"
    "opt_negativePrompts geometric_options = None"
    by (simp_all add: geometric_options_def no_options_def)
  have t: "getTechnicalRequirements geometric_options =
      ''flat vector design, scalable, professional quality, high contrast''"
    by (simp add: getTechnicalRequirements_def geometric_options_def no_options_def)
  show ?thesis
    by (simp add: generateFromTemplate_def o geometric_template geometric_base
        geometric_interpolated t)
qed

theorem placeholders_left_verbatim_witness:
  "opt_template geometric_options = Some ''minimal-geometric'' \<and>
   template_map ''minimal-geometric'' = Some (hd professionalTemplates) \<and>
   str_includes (tpl_basePrompt (hd professionalTemplates)) ''[PRIMARY_COLOR]'' \<and>
   opt_colors geometric_options = None \<and>
   generateFromTemplate acme_request geometric_options = Inr
     ''Minimalist geometric logo, [SHAPE] form, flat vector design, [PRIMARY_COLOR] on white background, sharp edges, scalableflat vector design, scalable, professional quality, high contrast --no gradients --no 3D effects --no ornate details'' \<and>
   str_includes
     ''Minimalist geometric logo, [SHAPE] form, flat vector design, [PRIMARY_COLOR] on white background, sharp edges, scalableflat vector design, scalable, professional quality, high contrast --no gradients --no 3D effects --no ornate details''
     ''[PRIMARY_COLOR]''"
proof -
  have h1: "opt_template geometric_options = Some ''minimal-geometric''"
    and h4: "opt_colors geometric_options = None"
    by (simp_all add: geometric_options_def no_options_def)
  have h3: "str_includes (tpl_basePrompt (hd professionalTemplates)) ''[PRIMARY_COLOR]''"
    by (simp add: geometric_base)
  have h5: "(is_placeholder ''[PRIMARY_COLOR]'' \<and> ''[PRIMARY_COLOR]'' \<notin> set (replacement_set geometric_options)) \<or>
         ''[PRIMARY_COLOR]'' \<in> set [''[SHAPE]'', ''[LETTER]'', ''[ELEMENT]'', ''[SYMBOL]''] \<or>
         (''[PRIMARY_COLOR]'' \<in> set [''[PRIMARY_COLOR]'', ''[SECONDARY_COLOR]'', ''[COLOR_PALETTE]''] \<and>
          (opt_colors geometric_options = None \<or> opt_colors geometric_options = Some []))"
    using h4 by simp
  from placeholders_left_verbatim [OF h1 geometric_template h3 h5, of acme_request]
  obtain prompt where p: "generateFromTemplate acme_request geometric_options = Inr prompt"
    "str_includes prompt ''[PRIMARY_COLOR]''"
    by blast
  from p(1) have "prompt = ''Minimalist geometric logo, [SHAPE] form, flat vector design, [PRIMARY_COLOR] on white background, sharp edges, scalableflat vector design, scalable, professional quality, high contrast --no gradients --no 3D effects --no ornate details''"
    by (simp add: geometric_prompt)
  with p h1 h3 h4 geometric_template show ?thesis by blast
qed

section \<open>Properties of CSV parsing\<close>

subsection \<open>Splitting and trimming\<close>

text \<open>
  \<open>split\<close> cuts at every separator and nowhere else: joining the pieces with the separator
  gives the string back, and no piece contains the separator.
\<close>

lemma split_on_nonempty: "split_on sep s \<noteq> []"
  by (induction s) (auto split: list.splits)

lemma split_on_join: "join [sep] (split_on sep s) = s"
proof (induction s)
  case Nil
  show ?case by simp
next
  case (Cons c cs)
  obtain w ws where w: "split_on sep cs = w # ws"
    using split_on_nonempty [of sep cs] by (cases "split_on sep cs") auto
  with Cons show ?case by (cases ws) auto
qed

lemma split_on_pieces: "p \<in> set (split_on sep s) \<Longrightarrow> sep \<notin> set p"
proof (induction s arbitrary: p)
  case Nil
  then show ?case by simp
next
  case (Cons c cs)
  obtain w ws where w: "split_on sep cs = w # ws"
    using split_on_nonempty [of sep cs] by (cases "split_on sep cs") auto
  with Cons.prems Cons.IH show ?case by (auto split: if_splits)
qed

text \<open>
  \<open>trim\<close> removes a run of white-space characters from each end, and what is left neither
  starts nor ends with a white-space character.
\<close>

lemma strip_leading_spec:
  "(\<exists>ws. set ws \<subseteq> set seqs \<and> s = concat ws @ strip_leading seqs s) \<and>
   (\<forall>w\<in>set seqs. w \<noteq> [] \<longrightarrow> \<not> prefix w (strip_leading seqs s))"
proof (induction seqs s rule: strip_leading.induct)
  case (1 seqs s)
  show ?case
  proof (cases "find (\<lambda>w. w \<noteq> [] \<and> prefix w s) seqs")
    case None
    then have s: "strip_leading seqs s = s" by (subst strip_leading.simps) simp
    from None have "\<forall>w\<in>set seqs. w \<noteq> [] \<longrightarrow> \<not> prefix w s" by (auto simp: find_None_iff)
    moreover have "set [] \<subseteq> set seqs \<and> s = concat [] @ s" by simp
    ultimately show ?thesis unfolding s by blast
  next
    case (Some w)
    then have s: "strip_leading seqs s = strip_leading seqs (drop (length w) s)"
      by (subst strip_leading.simps) simp
    from Some have w: "w \<in> set seqs" "prefix w s"
      by (auto simp: find_Some_iff)
    then have sw: "s = w @ drop (length w) s" by (auto simp: prefix_def)
    from "1.IH" [OF Some] obtain ws where ws: "set ws \<subseteq> set seqs"
        "drop (length w) s = concat ws @ strip_leading seqs (drop (length w) s)"
      and np: "\<forall>w'\<in>set seqs. w' \<noteq> [] \<longrightarrow> \<not> prefix w' (strip_leading seqs (drop (length w) s))"
      by blast
    from sw ws(2) have "s = concat (w # ws) @ strip_leading seqs (drop (length w) s)"
      by (metis append.assoc concat.simps(2))
    moreover from w(1) ws(1) have "set (w # ws) \<subseteq> set seqs" by simp
    ultimately show ?thesis unfolding s using np by blast
  qed
qed

lemma trim_spec:
  "(\<exists>leading trailing. set leading \<subseteq> set white_space \<and> set trailing \<subseteq> set white_space \<and>
      s = concat leading @ trim s @ concat trailing) \<and>
   (\<forall>w\<in>set white_space. \<not> prefix w (trim s) \<and> \<not> suffix w (trim s))"
proof -
  let ?t = "strip_leading white_space s"
  have ne: "w \<noteq> []" if "w \<in> set white_space" for w
    using that by (auto simp: white_space_def)
  from strip_leading_spec [of white_space s] obtain leading
    where l: "set leading \<subseteq> set white_space" "s = concat leading @ ?t"
      and lp: "\<forall>w\<in>set white_space. w \<noteq> [] \<longrightarrow> \<not> prefix w ?t"
    by blast
  from strip_leading_spec [of "map rev white_space" "rev ?t"] obtain rs
    where r: "set rs \<subseteq> set (map rev white_space)" "rev ?t = concat rs @ rev (trim s)"
      and rp: "\<forall>w\<in>set (map rev white_space). w \<noteq> [] \<longrightarrow> \<not> prefix w (rev (trim s))"
    by (auto simp: trim_def)
  from r(2) have "?t = rev (concat rs @ rev (trim s))" by (metis rev_rev_ident)
  then have t: "?t = trim s @ concat (map rev (rev rs))" by (simp add: rev_concat)
  from r(1) have tr: "set (map rev (rev rs)) \<subseteq> set white_space" by auto
  have "\<not> prefix w (trim s) \<and> \<not> suffix w (trim s)" if w: "w \<in> set white_space" for w
  proof
    show "\<not> prefix w (trim s)"
    proof
      assume "prefix w (trim s)"
      then have "prefix w ?t" by (subst t) (rule prefix_prefix)
      with lp w ne show False by blast
    qed
    show "\<not> suffix w (trim s)"
    proof
      assume "suffix w (trim s)"
      then have "prefix (rev w) (rev (trim s))" by (simp add: suffix_to_prefix)
      moreover from w have "rev w \<in> set (map rev white_space)" "rev w \<noteq> []"
        using ne by auto
      ultimately show False using rp by blast
    qed
  qed
  moreover from l(2) t have "s = concat leading @ trim s @ concat (map rev (rev rs))" by simp
  ultimately show ?thesis using l(1) tr by blast
qed

lemma trim_unicode:
  "trim ([CHR 0xEF, CHR 0xBB, CHR 0xBF] @ '' red'' @ [CHR 0xC2, CHR 0xA0, CHR 0x09]) = ''red''"
  by code_simp

subsection \<open>Rows\<close>

lemma apply_headers_append:
  "apply_headers (pre @ post) idx values request =
     apply_headers post (idx + length pre) values (apply_headers pre idx values request)"
  by (induction pre arbitrary: idx request) simp_all

text \<open>
  A field of the request is decided by the last header that names it: the field holds
  what the \<open>switch\<close> makes of the cell in that column.
\<close>

lemma apply_headers_unchanged:
  assumes "\<And>h v req. \<not> P h \<Longrightarrow> g (apply_header h v req) = g req"
    and "\<forall>x\<in>set headers. \<not> P (toLowerCase x)"
  shows "g (apply_headers headers idx values request) = g request"
  using assms(2) by (induction headers arbitrary: idx request) (simp_all add: assms(1))

lemma apply_headers_last:
  assumes skip: "\<And>h v req. \<not> P h \<Longrightarrow> g (apply_header h v req) = g req"
    and store: "\<And>h v req. P h \<Longrightarrow> g (apply_header h v req) = f v"
    and h: "P (toLowerCase h)" and post: "\<forall>x\<in>set post. \<not> P (toLowerCase x)"
  shows "g (apply_headers (pre @ h # post) idx values request) = f (cell values (idx + length pre))"
proof -
  have "g (apply_headers (pre @ h # post) idx values request) =
      g (apply_header (toLowerCase h) (cell values (idx + length pre))
           (apply_headers pre idx values request))"
    by (simp add: apply_headers_append apply_headers_unchanged [of P g, OF skip post])
  with store [OF h] show ?thesis by simp
qed

lemma company_last:
  assumes "toLowerCase h = ''company''" "''company'' \<notin> set (map toLowerCase post)"
  shows "d_company (apply_headers (pre @ h # post) 0 values request) = cell values (length pre)"
proof -
  have "d_company (apply_headers (pre @ h # post) 0 values request) =
      (\<lambda>v. v) (cell values (0 + length pre))"
  proof (rule apply_headers_last [of "\<lambda>h. h = ''company''"])
    show "toLowerCase h = ''company''" by (rule assms(1))
    show "\<forall>x\<in>set post. toLowerCase x \<noteq> ''company''" using assms(2) by (force simp: image_iff)
  qed (simp_all add: apply_header_def)
  then show ?thesis by simp
qed

lemma prompt_last:
  assumes "toLowerCase h \<in> {''prompt'', ''description''}"
    "set (map toLowerCase post) \<inter> {''prompt'', ''description''} = {}"
  shows "d_prompt (apply_headers (pre @ h # post) 0 values request) = cell values (length pre)"
proof -
  have "d_prompt (apply_headers (pre @ h # post) 0 values request) =
      (\<lambda>v. v) (cell values (0 + length pre))"
  proof (rule apply_headers_last [of "\<lambda>h. h \<in> {''prompt'', ''description''}"])
    show "toLowerCase h \<in> {''prompt'', ''description''}" by (rule assms(1))
    show "\<forall>x\<in>set post. toLowerCase x \<notin> {''prompt'', ''description''}"
      using assms(2) by (force simp: image_iff)
  qed (auto simp: apply_header_def)
  then show ?thesis by simp
qed

lemma colors_last:
  assumes "toLowerCase h = ''colors''" "''colors'' \<notin> set (map toLowerCase post)"
  shows "d_colors (apply_headers (pre @ h # post) 0 values request) =
    (case cell values (length pre) of
       None \<Rightarrow> None
     | Some s \<Rightarrow> if s = [] then None else Some (map trim (split_on CHR '';'' s)))"
proof -
  have "d_colors (apply_headers (pre @ h # post) 0 values request) =
      (\<lambda>v. case v of None \<Rightarrow> None
            | Some s \<Rightarrow> if s = [] then None else Some (map trim (split_on CHR '';'' s)))
        (cell values (0 + length pre))"
  proof (rule apply_headers_last [of "\<lambda>h. h = ''colors''"])
    show "toLowerCase h = ''colors''" by (rule assms(1))
    show "\<forall>x\<in>set post. toLowerCase x \<noteq> ''colors''" using assms(2) by (force simp: image_iff)
  qed (simp_all add: apply_header_def)
  then show ?thesis by simp
qed

lemma apply_header_prompt:
  "d_prompt (apply_header header v request) =
     (if header = ''prompt'' \<or> header = ''description'' then v else d_prompt request)"
  by (simp add: apply_header_def)

lemma apply_headers_prompt_missing:
  "\<forall>j<length headers. toLowerCase (headers ! j) \<in> {''prompt'', ''description''} \<longrightarrow>
      \<not> truthy (cell values (idx + j)) \<Longrightarrow>
   \<not> truthy (d_prompt request) \<Longrightarrow>
   \<not> truthy (d_prompt (apply_headers headers idx values request))"
proof (induction headers arbitrary: idx request)
  case Nil
  then show ?case by simp
next
  case (Cons h hs)
  from Cons.prems(1) have hd: "toLowerCase h \<in> {''prompt'', ''description''} \<longrightarrow>
      \<not> truthy (cell values idx)"
    by force
  have tl: "\<forall>j<length hs. toLowerCase (hs ! j) \<in> {''prompt'', ''description''} \<longrightarrow>
      \<not> truthy (cell values (Suc idx + j))"
  proof (intro allI impI)
    fix j assume "j < length hs" "toLowerCase (hs ! j) \<in> {''prompt'', ''description''}"
    with Cons.prems(1) [rule_format, of "Suc j"] show "\<not> truthy (cell values (Suc idx + j))"
      by simp
  qed
  from hd Cons.prems(2)
  have "\<not> truthy (d_prompt (apply_header (toLowerCase h) (cell values idx) request))"
    by (auto simp: apply_header_prompt)
  with Cons.IH [OF tl] show ?case by simp
qed

lemma parse_line_Some:
  assumes "parse_line headers line = Some r"
  shows "req_company r \<noteq> [] \<and> req_prompt r \<noteq> [] \<and>
    d_company (apply_headers headers 0 (row_values line) empty_row) = Some (req_company r) \<and>
    d_prompt (apply_headers headers 0 (row_values line) empty_row) = Some (req_prompt r) \<and>
    req_colors r = d_colors (apply_headers headers 0 (row_values line) empty_row)"
  using assms
  by (auto simp: parse_line_def row_values_def Let_def pushed_request_def truthy_def
      split: if_splits option.splits)

lemma parse_line_kept:
  "(parse_line headers line \<noteq> None) =
     (truthy (d_company (apply_headers headers 0 (row_values line) empty_row)) \<and>
      truthy (d_prompt (apply_headers headers 0 (row_values line) empty_row)))"
  by (simp add: parse_line_def row_values_def Let_def)

lemma parseCSV_rows:
  "r \<in> set (parseCSV content) \<Longrightarrow> \<exists>headers line. parse_line headers line = Some r"
  by (auto simp: parseCSV_def Let_def map_filter_def split: list.splits) blast

lemma red_blue: "map trim (split_on CHR '';'' ''red;blue'') = [''red'', ''blue'']"
  by code_simp

text \<open>
  Claim C8. The cells of a row are the pieces of its line between the commas, each trimmed
  and then stripped of one leading and one trailing double quote; \<open>parseCSV\<close> reads the
  header names from the first line of the trimmed content and parses every further line.
  Every request it returns has a non-empty company and a non-empty prompt. For a row that
  is kept, the company is the cell under the last \<open>company\<close> header and the prompt the cell
  under the last \<open>prompt\<close> or \<open>description\<close> header; with both headers present a row is kept
  exactly when these two cells are present and non-empty. A row in which every cell under
  a \<open>prompt\<close> or \<open>description\<close> header is missing or empty yields no request (the function
  has no error outcome at all). And a kept row whose cell under the last \<open>colors\<close> header
  is a non-empty \<open>v\<close> has the colour list made of the pieces of \<open>v\<close> between the
  semicolons, each trimmed: \<open>[red, blue]\<close> for \<open>red;blue\<close>.
\<close>

theorem parseCSV_keeps_complete_rows:
  "row_values line = map (\<lambda>v. strip_quotes (trim v)) (split_on CHR '','' line) \<and>
   (split_on CHR 0x0A (trim content) = first # rows \<longrightarrow>
      parseCSV content = List.map_filter (parse_line (map trim (split_on CHR '','' first))) rows) \<and>
   (\<forall>r\<in>set (parseCSV content). req_company r \<noteq> [] \<and> req_prompt r \<noteq> []) \<and>
   (parse_line headers line = Some r \<longrightarrow> req_company r \<noteq> [] \<and> req_prompt r \<noteq> []) \<and>
   (headers = pre_company @ h_company # post_company \<and> toLowerCase h_company = ''company'' \<and>
    ''company'' \<notin> set (map toLowerCase post_company) \<and>
    headers = pre_prompt @ h_prompt # post_prompt \<and> toLowerCase h_prompt \<in> {''prompt'', ''description''} \<and>
    set (map toLowerCase post_prompt) \<inter> {''prompt'', ''description''} = {} \<longrightarrow>
      (parse_line headers line = Some r \<longrightarrow>
         cell (row_values line) (length pre_company) = Some (req_company r) \<and>
         cell (row_values line) (length pre_prompt) = Some (req_prompt r)) \<and>
      (parse_line headers line \<noteq> None) =
        (truthy (cell (row_values line) (length pre_company)) \<and>
         truthy (cell (row_values line) (length pre_prompt)))) \<and>
   ((\<forall>j<length hs. toLowerCase (hs ! j) \<in> {''prompt'', ''description''} \<longrightarrow>
        \<not> truthy (cell (row_values row) j)) \<longrightarrow>
      parse_line hs row = None) \<and>
   (headers = pre_colors @ h_colors # post_colors \<and> toLowerCase h_colors = ''colors'' \<and>
    ''colors'' \<notin> set (map toLowerCase post_colors) \<and>
    cell (row_values line) (length pre_colors) = Some v \<and> v \<noteq> [] \<and>
    parse_line headers line = Some r \<longrightarrow>
      req_colors r = Some (map trim (split_on CHR '';'' v)) \<and>
      (v = ''red;blue'' \<longrightarrow> req_colors r = Some [''red'', ''blue'']))"
proof (intro conjI impI ballI)
  show "row_values line = map (\<lambda>v. strip_quotes (trim v)) (split_on CHR '','' line)"
    by (simp add: row_values_def)
next
  assume "split_on CHR 0x0A (trim content) = first # rows"
  then show "parseCSV content =
      List.map_filter (parse_line (map trim (split_on CHR '','' first))) rows"
    by (simp add: parseCSV_def Let_def)
next
  fix r' assume "r' \<in> set (parseCSV content)"
  then obtain hs l where "parse_line hs l = Some r'" using parseCSV_rows by blast
  then show "req_company r' \<noteq> []" "req_prompt r' \<noteq> []" using parse_line_Some by blast+
next
  assume "parse_line headers line = Some r"
  from parse_line_Some [OF this]
  show "req_company r \<noteq> []" "req_prompt r \<noteq> []" by blast+
next
  assume a: "headers = pre_company @ h_company # post_company \<and> toLowerCase h_company = ''company'' \<and>
    ''company'' \<notin> set (map toLowerCase post_company) \<and>
    headers = pre_prompt @ h_prompt # post_prompt \<and> toLowerCase h_prompt \<in> {''prompt'', ''description''} \<and>
    set (map toLowerCase post_prompt) \<inter> {''prompt'', ''description''} = {}"
  then have c: "d_company (apply_headers headers 0 (row_values line) empty_row) =
      cell (row_values line) (length pre_company)"
    using company_last [of h_company post_company pre_company] by blast
  from a have "d_prompt (apply_headers (pre_prompt @ h_prompt # post_prompt) 0 (row_values line) empty_row) =
      cell (row_values line) (length pre_prompt)"
    by (intro prompt_last) blast+
  with a have p: "d_prompt (apply_headers headers 0 (row_values line) empty_row) =
      cell (row_values line) (length pre_prompt)"
    by metis
  {
    assume "parse_line headers line = Some r"
    from parse_line_Some [OF this] c p
    show "cell (row_values line) (length pre_company) = Some (req_company r)"
      "cell (row_values line) (length pre_prompt) = Some (req_prompt r)"
      by simp_all
  }
  from c p show "(parse_line headers line \<noteq> None) =
      (truthy (cell (row_values line) (length pre_company)) \<and>
       truthy (cell (row_values line) (length pre_prompt)))"
    by (simp only: parse_line_kept)
next
  assume "\<forall>j<length hs. toLowerCase (hs ! j) \<in> {''prompt'', ''description''} \<longrightarrow>
        \<not> truthy (cell (row_values row) j)"
  then have "\<not> truthy (d_prompt (apply_headers hs 0 (row_values row) empty_row))"
    by (intro apply_headers_prompt_missing) (simp_all add: empty_row_def truthy_def)
  then show "parse_line hs row = None"
    by (simp add: parse_line_def Let_def row_values_def)
next
  assume a: "headers = pre_colors @ h_colors # post_colors \<and> toLowerCase h_colors = ''colors'' \<and>
    ''colors'' \<notin> set (map toLowerCase post_colors) \<and>
    cell (row_values line) (length pre_colors) = Some v \<and> v \<noteq> [] \<and>
    parse_line headers line = Some r"
  then have "d_colors (apply_headers headers 0 (row_values line) empty_row) =
      Some (map trim (split_on CHR '';'' v))"
    using colors_last [of h_colors post_colors pre_colors "row_values line" empty_row] by simp
  moreover from a have "parse_line headers line = Some r" by blast
  then have "req_colors r = d_colors (apply_headers headers 0 (row_values line) empty_row)"
    using parse_line_Some by blast
  ultimately show c: "req_colors r = Some (map trim (split_on CHR '';'' v))" by simp
  {
    assume "v = ''red;blue''"
    with c show "req_colors r = Some [''red'', ''blue'']" by (simp only: red_blue)
  }
qed

lemma sample_csv_lines:
  "split_on CHR 0x0A (trim sample_csv) =
     ''company,prompt,style,colors,quality'' #
     [''TechCorp,modern software logo,modern,'' @ [CHR 0x22] @ ''blue;gray'' @ [CHR 0x22] @ '',standard'',
      ''NoPrompt,,minimal,green,hd'', acme_line, ''Globex,round mark,bold, teal ;  navy,hd'']"
  by code_simp

lemma sample_csv_headers: "map trim (split_on CHR '','' ''company,prompt,style,colors,quality'') = sample_headers"
  by code_simp

lemma sample_csv_parsed: "parseCSV sample_csv = [techcorp_row, acme_row, globex_row]"
  by code_simp

lemma sample_headers_lower: "map toLowerCase sample_headers = sample_headers"
  by (simp add: sample_headers_def toLowerCase_def toLowerChar_def)

lemma no_prompt_values:
  "row_values ''NoPrompt,,minimal,green,hd'' = [''NoPrompt'', [], ''minimal'', ''green'', ''hd'']"
  by code_simp

lemma acme_values:
  "row_values acme_line = [''Acme'', ''bold new idea'', ''bold'', ''red;blue'', ''standard'']"
  by code_simp

lemma globex_values:
  "row_values ''Globex,round mark,bold, teal ;  navy,hd'' =
     [''Globex'', ''round mark'', ''bold'', ''teal ;  navy'', ''hd'']"
  by code_simp

lemma globex_pieces: "split_on CHR '';'' ''teal ;  navy'' = [''teal '', ''  navy'']"
  by code_simp

lemma acme_parsed: "parse_line sample_headers acme_line = Some acme_row"
  by code_simp

lemma globex_parsed:
  "parse_line sample_headers ''Globex,round mark,bold, teal ;  navy,hd'' = Some globex_row"
  by code_simp

theorem parseCSV_keeps_complete_rows_witness:
  "parseCSV sample_csv = [techcorp_row, acme_row, globex_row] \<and>
   parse_line sample_headers acme_line = Some acme_row \<and>
   sample_headers = [] @ ''company'' # [''prompt'', ''style'', ''colors'', ''quality''] \<and>
   sample_headers = [''company''] @ ''prompt'' # [''style'', ''colors'', ''quality''] \<and>
   sample_headers = [''company'', ''prompt'', ''style''] @ ''colors'' # [''quality''] \<and>
   cell (row_values acme_line) 0 = Some ''Acme'' \<and>
   cell (row_values acme_line) 1 = Some ''bold new idea'' \<and>
   cell (row_values acme_line) 3 = Some ''red;blue'' \<and>
   req_colors acme_row = Some [''red'', ''blue''] \<and>
   cell (row_values ''NoPrompt,,minimal,green,hd'') 1 = Some [] \<and>
   parse_line sample_headers ''NoPrompt,,minimal,green,hd'' = None"
proof -
  note c = parseCSV_keeps_complete_rows
    [where line = acme_line and content = sample_csv
       and first = "''company,prompt,style,colors,quality''"
       and rows = "[''TechCorp,modern software logo,modern,'' @ [CHR 0x22] @ ''blue;gray'' @
                     [CHR 0x22] @ '',standard'',
                    ''NoPrompt,,minimal,green,hd'', acme_line,
                    ''Globex,round mark,bold, teal ;  navy,hd'']"
       and headers = sample_headers and r = acme_row
       and pre_company = "[]" and h_company = "''company''"
       and post_company = "[''prompt'', ''style'', ''colors'', ''quality'']"
       and pre_prompt = "[''company'']" and h_prompt = "''prompt''"
       and post_prompt = "[''style'', ''colors'', ''quality'']"
       and hs = sample_headers and row = "''NoPrompt,,minimal,green,hd''"
       and pre_colors = "[''company'', ''prompt'', ''style'']" and h_colors = "''colors''"
       and post_colors = "[''quality'']" and v = "''red;blue''"]
  have lower: "toLowerCase ''company'' = ''company''" "toLowerCase ''prompt'' = ''prompt''"
    "toLowerCase ''colors'' = ''colors''"
    "map toLowerCase [''prompt'', ''style'', ''colors'', ''quality''] =
       [''prompt'', ''style'', ''colors'', ''quality'']"
    "map toLowerCase [''style'', ''colors'', ''quality''] = [''style'', ''colors'', ''quality'']"
    "map toLowerCase [''quality''] = [''quality'']"
    by code_simp+
  have d1: "sample_headers = [] @ ''company'' # [''prompt'', ''style'', ''colors'', ''quality'']"
    and d2: "sample_headers = [''company''] @ ''prompt'' # [''style'', ''colors'', ''quality'']"
    and d3: "sample_headers = [''company'', ''prompt'', ''style''] @ ''colors'' # [''quality'']"
    by (simp_all add: sample_headers_def)
  have fields: "sample_headers = [] @ ''company'' # [''prompt'', ''style'', ''colors'', ''quality''] \<and>
      toLowerCase ''company'' = ''company'' \<and>
      ''company'' \<notin> set (map toLowerCase [''prompt'', ''style'', ''colors'', ''quality'']) \<and>
      sample_headers = [''company''] @ ''prompt'' # [''style'', ''colors'', ''quality''] \<and>
      toLowerCase ''prompt'' \<in> {''prompt'', ''description''} \<and>
      set (map toLowerCase [''style'', ''colors'', ''quality'']) \<inter> {''prompt'', ''description''} = {}"
    unfolding lower using d1 d2 by simp
  with c acme_parsed have located: "cell (row_values acme_line) (length ([]::string list)) = Some (req_company acme_row) \<and>
      cell (row_values acme_line) (length [''company'']) = Some (req_prompt acme_row)"
    by blast
  then have co: "cell (row_values acme_line) 0 = Some ''Acme''"
    and pr: "cell (row_values acme_line) 1 = Some ''bold new idea''"
    by (simp_all add: acme_row_def)
  have missing: "\<forall>j<length sample_headers.
      toLowerCase (sample_headers ! j) \<in> {''prompt'', ''description''} \<longrightarrow>
      \<not> truthy (cell (row_values ''NoPrompt,,minimal,green,hd'') j)"
  proof (intro allI impI)
    fix j assume j: "j < length sample_headers"
      and p: "toLowerCase (sample_headers ! j) \<in> {''prompt'', ''description''}"
    from j have "toLowerCase (sample_headers ! j) = sample_headers ! j"
      by (metis sample_headers_lower nth_map)
    with p j have "j = 1"
      by (auto simp: sample_headers_def nth_Cons' less_Suc_eq split: if_splits)
    then show "\<not> truthy (cell (row_values ''NoPrompt,,minimal,green,hd'') j)"
      by (simp add: no_prompt_values cell_def truthy_def)
  qed
  with c have dropped: "parse_line sample_headers ''NoPrompt,,minimal,green,hd'' = None"
    by blast
  have cl: "cell (row_values acme_line) 3 = Some ''red;blue''"
    by (simp add: acme_values cell_def)
  have col: "sample_headers = [''company'', ''prompt'', ''style''] @ ''colors'' # [''quality''] \<and>
      toLowerCase ''colors'' = ''colors'' \<and>
      ''colors'' \<notin> set (map toLowerCase [''quality'']) \<and>
      cell (row_values acme_line) (length [''company'', ''prompt'', ''style'']) = Some ''red;blue'' \<and>
      ''red;blue'' \<noteq> [] \<and>
      parse_line sample_headers acme_line = Some acme_row"
    unfolding lower using cl acme_parsed d3 by (simp add: numeral_3_eq_3)
  with c have colors: "req_colors acme_row = Some [''red'', ''blue'']" by blast
  have nv: "cell (row_values ''NoPrompt,,minimal,green,hd'') 1 = Some []"
    by (simp add: no_prompt_values cell_def)
  from c sample_csv_lines
  have "parseCSV sample_csv = List.map_filter
      (parse_line (map trim (split_on CHR '','' ''company,prompt,style,colors,quality'')))
      [''TechCorp,modern software logo,modern,'' @ [CHR 0x22] @ ''blue;gray'' @ [CHR 0x22] @ '',standard'',
       ''NoPrompt,,minimal,green,hd'', acme_line, ''Globex,round mark,bold, teal ;  navy,hd'']"
    by blast
  then have all: "parseCSV sample_csv = [techcorp_row, acme_row, globex_row]"
    by (simp only: sample_csv_parsed)
  from all acme_parsed d1 d2 d3 co pr cl colors nv dropped show ?thesis by blast
qed

text \<open>
  The last line of the sample: the cell \<open>teal ;  navy\<close> splits into \<open>teal\<close> followed by a
  blank and \<open>navy\<close> preceded by two, and the request holds the trimmed pieces.
\<close>

lemma globex_colors:
  "cell (row_values ''Globex,round mark,bold, teal ;  navy,hd'') 3 = Some ''teal ;  navy'' \<and>
   split_on CHR '';'' ''teal ;  navy'' = [''teal '', ''  navy''] \<and>
   map_option req_colors (parse_line sample_headers ''Globex,round mark,bold, teal ;  navy,hd'') =
     Some (Some [''teal'', ''navy''])"
  by (simp add: globex_values globex_pieces globex_parsed cell_def globex_row_def)

section \<open>Properties of batch processing\<close>




text \<open>The run returns whenever writing the manifest does not throw.\<close>

lemma processBatch_returns:
  assumes "\<forall>dir it text rs. manifest dir it text rs = None"
  shows "\<exists>results. processBatch generator downloader manifest batch order = Inr results"
  using assms by (simp add: processBatch_def Let_def)






end
